theory Spec2Isabelle
  imports Complex_Main "HOL-Library.Log_Nat"
begin

section \<open>Numbers\<close>

text \<open>
  A JavaScript number is an IEEE 754 double: a finite value, which is a rational
  number, one of the two infinities, or NaN. The two zeros are not distinguished: they
  compare equal, and a division by zero is a division by \<open>+0\<close>.
\<close>

datatype number = Finite rat | PosInf | NegInf | NaN

text \<open>\<open>pow2 n\<close> is 2 to the power \<open>n\<close>, \<open>floor_log2 x\<close> the binary exponent of a
  positive rational.\<close>

definition pow2 :: "int \<Rightarrow> rat" where
  "pow2 n = (if n \<ge> 0 then of_int (2 ^ nat n) else 1 / of_int (2 ^ nat (- n)))"

definition floor_log2 :: "rat \<Rightarrow> int" where
  "floor_log2 x =
     (case quotient_of x of (p, q) \<Rightarrow>
        (let d = bitlen p - bitlen q in if pow2 d \<le> x then d else d - 1))"

text \<open>The nearest integer, a tie going to the even one.\<close>

definition round_even :: "rat \<Rightarrow> int" where
  "round_even q =
     (let n = \<lfloor>q\<rfloor>; r = q - of_int n
      in if r < 1 / 2 then n else if 1 / 2 < r then n + 1 else if even n then n else n + 1)"

text \<open>
  \<open>rd x\<close> is the double nearest to the exact value \<open>x\<close> (round to nearest, ties to
  even): with binary exponent \<open>e\<close>, at least \<open>-1022\<close>, the value is rounded to a multiple
  of \<open>2^(e - 52)\<close>; a result of magnitude \<open>2^1024\<close> or more is an infinity. Every
  arithmetic operation returns \<open>rd\<close> of its exact result.
\<close>

definition rd :: "rat \<Rightarrow> number" where
  "rd x =
     (if x = 0 then Finite 0
      else
        (let e = max (floor_log2 \<bar>x\<bar>) (- 1022);
             u = pow2 (e - 52);
             y = of_int (round_even (x / u)) * u
         in if e < 1023 then Finite y
            else if pow2 1024 \<le> \<bar>y\<bar> then (if 0 < x then PosInf else NegInf)
            else Finite y))"

text \<open>A decimal literal of the source denotes the nearest double.\<close>

definition num :: "rat \<Rightarrow> number" where
  "num x = rd x"

fun num_neg :: "number \<Rightarrow> number" where
  "num_neg (Finite a) = Finite (- a)"
| "num_neg PosInf = NegInf"
| "num_neg NegInf = PosInf"
| "num_neg NaN = NaN"

fun num_add :: "number \<Rightarrow> number \<Rightarrow> number" where
  "num_add (Finite a) (Finite b) = rd (a + b)"
| "num_add NaN y = NaN"
| "num_add x NaN = NaN"
| "num_add PosInf NegInf = NaN"
| "num_add NegInf PosInf = NaN"
| "num_add PosInf y = PosInf"
| "num_add NegInf y = NegInf"
| "num_add (Finite a) y = y"

text \<open>The sign of a number that is not NaN, zero counting as positive.\<close>

fun nonneg :: "number \<Rightarrow> bool" where
  "nonneg (Finite a) = (0 \<le> a)"
| "nonneg PosInf = True"
| "nonneg NegInf = False"
| "nonneg NaN = True"

definition signed_inf :: "bool \<Rightarrow> number" where
  "signed_inf pos = (if pos then PosInf else NegInf)"

fun num_mul :: "number \<Rightarrow> number \<Rightarrow> number" where
  "num_mul (Finite a) (Finite b) = rd (a * b)"
| "num_mul NaN y = NaN"
| "num_mul x NaN = NaN"
| "num_mul (Finite a) y = (if a = 0 then NaN else signed_inf (nonneg (Finite a) = nonneg y))"
| "num_mul x (Finite b) = (if b = 0 then NaN else signed_inf (nonneg x = nonneg (Finite b)))"
| "num_mul x y = signed_inf (nonneg x = nonneg y)"

fun num_div :: "number \<Rightarrow> number \<Rightarrow> number" where
  "num_div (Finite a) (Finite b) =
     (if b = 0 then (if a = 0 then NaN else signed_inf (0 < a)) else rd (a / b))"
| "num_div NaN y = NaN"
| "num_div x NaN = NaN"
| "num_div (Finite a) y = Finite 0"
| "num_div x (Finite b) = signed_inf (nonneg x = nonneg (Finite b))"
| "num_div x y = NaN"

text \<open>\<open><\<close> and \<open><=\<close>: false whenever an operand is NaN.\<close>

fun num_less :: "number \<Rightarrow> number \<Rightarrow> bool" where
  "num_less (Finite a) (Finite b) = (a < b)"
| "num_less NaN y = False"
| "num_less x NaN = False"
| "num_less x NegInf = False"
| "num_less PosInf y = False"
| "num_less x y = True"

text \<open>\<open>===\<close> on numbers: NaN equals nothing.\<close>

definition num_eq :: "number \<Rightarrow> number \<Rightarrow> bool" where
  "num_eq x y = (if x = NaN then False else x = y)"

instantiation number :: "{zero, uminus, plus, minus, times, inverse, ord}"
begin

definition zero_number :: number where
  "zero_number = Finite 0"

definition uminus_number :: "number \<Rightarrow> number" where
  "uminus_number x = num_neg x"

definition plus_number :: "number \<Rightarrow> number \<Rightarrow> number" where
  "plus_number x y = num_add x y"

definition minus_number :: "number \<Rightarrow> number \<Rightarrow> number" where
  "minus_number x y = num_add x (num_neg y)"

definition times_number :: "number \<Rightarrow> number \<Rightarrow> number" where
  "times_number x y = num_mul x y"

definition inverse_number :: "number \<Rightarrow> number" where
  "inverse_number x = num_div (Finite 1) x"

definition divide_number :: "number \<Rightarrow> number \<Rightarrow> number" where
  "divide_number x y = num_div x y"

definition less_number :: "number \<Rightarrow> number \<Rightarrow> bool" where
  "less_number x y = num_less x y"

definition less_eq_number :: "number \<Rightarrow> number \<Rightarrow> bool" where
  "less_eq_number x y = (if num_less x y then True else num_eq x y)"

instance ..

end

text \<open>\<open>Math.max\<close> and \<open>Math.min\<close> of two numbers: NaN when either is NaN.\<close>

definition Math_max :: "number \<Rightarrow> number \<Rightarrow> number" where
  "Math_max x y = (if x = NaN \<or> y = NaN then NaN else if x < y then y else x)"

definition Math_min :: "number \<Rightarrow> number \<Rightarrow> number" where
  "Math_min x y = (if x = NaN \<or> y = NaN then NaN else if y < x then y else x)"

text \<open>\<open>Math.round(x)\<close>: the nearest integer, a tie going up; \<open>Math.floor(x)\<close>. Both
  are exact on a finite double and leave the infinities and NaN as they are.\<close>

definition Math_round :: "number \<Rightarrow> number" where
  "Math_round x = (case x of Finite a \<Rightarrow> Finite (of_int \<lfloor>a + 1 / 2\<rfloor>) | _ \<Rightarrow> x)"

definition Math_floor :: "number \<Rightarrow> number" where
  "Math_floor x = (case x of Finite a \<Rightarrow> Finite (of_int \<lfloor>a\<rfloor>) | _ \<Rightarrow> x)"

text \<open>\<open>x || d\<close> on an optional number: \<open>undefined\<close>, \<open>0\<close> and NaN are falsy.\<close>

definition numOr :: "number option \<Rightarrow> number \<Rightarrow> number" where
  "numOr v d =
     (case v of None \<Rightarrow> d | Some x \<Rightarrow> if x = Finite 0 \<or> x = NaN then d else x)"

section \<open>Common data\<close>

text \<open>
  The package snapshot (\<open>packageData\<close>) and the per-version metadata of a version
  history have the same shape: the fields the scoring pipeline reads.
  \<open>unpackedSize\<close> is \<open>dist?.unpackedSize\<close>; objects are association lists in
  property order (\<open>Object.keys\<close>, \<open>Object.entries\<close>). A property that is \<open>undefined\<close>
  is \<open>None\<close>.
\<close>

record package_data =
  name :: "string option"
  version :: "string option"
  unpackedSize :: "number option"
  scripts :: "(string \<times> string) list"
  dependencies :: "(string \<times> (string \<times> string) list) list"
  time :: "string option"

text \<open>A string that is missing or empty is falsy.\<close>

definition truthy :: "string option \<Rightarrow> string option" where
  "truthy v = (case v of None \<Rightarrow> None | Some s \<Rightarrow> if s = [] then None else Some s)"

section \<open>Score calculator\<close>

text \<open>What a rule's \<open>evaluate\<close> resolves to; every property may be missing.\<close>

record 'd rule_output =
  deduction :: "number option"
  bonus :: "number option"
  details :: "'d option"
  riskLevel :: "string option"

text \<open>
  What the \<open>catch\<close> block of the rule loop can receive. JavaScript lets any value be
  thrown: \<open>null\<close> or \<open>undefined\<close> (\<open>Nullish\<close>), on which reading \<open>error.message\<close>
  itself throws a TypeError, or any other value (\<open>Thrown\<close>), whose \<open>message\<close>
  property is a string for an \<open>Error\<close> and may be \<open>undefined\<close> otherwise.
\<close>

datatype thrown = Nullish | Thrown "string option"

text \<open>
  A rule as the calculator sees it: a name, the \<open>enabled\<close> flag and \<open>evaluate\<close>,
  whose promise either rejects (\<open>Inl\<close> of the thrown value) or resolves to an output.
  A promise that resolves to \<open>null\<close> or \<open>undefined\<close> makes \<open>result.deduction\<close> throw
  a TypeError inside the \<open>try\<close>; that is \<open>Inl (Thrown (Some message))\<close> here.
\<close>

record 'd rule =
  rule_name :: string
  rule_enabled :: bool
  evaluate :: "package_data \<Rightarrow> thrown + 'd rule_output"

text \<open>An entry of \<open>ruleResults\<close>. \<open>details\<close> is the rule's own details, \<open>{}\<close> or
  \<open>{error: message}\<close>.\<close>

datatype 'd entry_details = Details 'd | EmptyDetails | ErrorDetails "string option"

record 'd rule_result =
  ruleName :: string
  res_deduction :: number
  res_bonus :: number
  res_details :: "'d entry_details"
  res_riskLevel :: string

record score_config =
  baseScore :: number
  minScore :: number
  maxScore :: number

text \<open>The constructor's defaults: \<open>{baseScore: 100, minScore: 0, maxScore: 100}\<close>.\<close>

definition default_config :: score_config where
  "default_config = \<lparr>baseScore = Finite 100, minScore = Finite 0, maxScore = Finite 100\<rparr>"

text \<open>
  Modelled from the spec: the rule registry (\<open>core/RuleRegistry\<close>) is not among the
  sources. The spec has \<open>register\<close> add a rule keyed by its name, replacing a prior rule
  of the same name, and \<open>getActiveRules\<close> return the rules whose \<open>enabled\<close> flag is true,
  in registration order.
\<close>

fun register :: "'d rule \<Rightarrow> 'd rule list \<Rightarrow> 'd rule list" where
  "register r [] = [r]"
| "register r (q # qs) = (if rule_name q = rule_name r then r # qs else q # register r qs)"

definition getActiveRules :: "'d rule list \<Rightarrow> 'd rule list" where
  "getActiveRules reg = filter rule_enabled reg"

record 'd ScoreCalculator =
  config :: score_config
  ruleRegistry :: "'d rule list"

definition registerRule ::
  "'d rule \<Rightarrow> 'd ScoreCalculator \<Rightarrow> 'd ScoreCalculator" where
  "registerRule r calc = calc\<lparr>ruleRegistry := register r (ruleRegistry calc)\<rparr>"

datatype band = Safe | Review | HighRisk | Block

text \<open>
  Modelled from the spec: \<open>getScoreBand\<close> (\<open>core/scoreBands\<close>) is not among the
  sources. The spec fixes the thresholds: at least 90 is Safe, [70, 90) Review,
  [50, 70) High Risk, below 50 Block. The comparisons are those of JavaScript numbers.
\<close>

definition getScoreBand :: "number \<Rightarrow> band" where
  "getScoreBand s =
     (if Finite 90 \<le> s then Safe
      else if Finite 70 \<le> s then Review
      else if Finite 50 \<le> s then HighRisk
      else Block)"

record 'd score_result =
  score :: number
  band :: band
  ruleResults :: "'d rule_result list"
  packageName :: "string option"
  packageVersion :: "string option"
  timestamp :: string

text \<open>The entry pushed when \<open>evaluate\<close> resolved, and the one pushed from the
  \<open>catch\<close> block.\<close>

definition result_entry :: "'d rule \<Rightarrow> 'd rule_output \<Rightarrow> 'd rule_result" where
  "result_entry r result =
     \<lparr>ruleName = rule_name r,
      res_deduction = numOr (deduction result) 0,
      res_bonus = numOr (bonus result) 0,
      res_details = (case details result of None \<Rightarrow> EmptyDetails | Some d \<Rightarrow> Details d),
      res_riskLevel = (case riskLevel result of
                         None \<Rightarrow> ''none''
                       | Some l \<Rightarrow> if l = [] then ''none'' else l)\<rparr>"

definition error_entry :: "'d rule \<Rightarrow> string option \<Rightarrow> 'd rule_result" where
  "error_entry r message =
     \<lparr>ruleName = rule_name r,
      res_deduction = 0,
      res_bonus = 0,
      res_details = ErrorDetails message,
      res_riskLevel = ''error''\<rparr>"

text \<open>How \<open>calculateScore\<close> can throw: its own \<open>Package data is required\<close> error,
  or the TypeError raised in the \<open>catch\<close> block by \<open>error.message\<close> on a nullish
  thrown value, which nothing catches.\<close>

datatype calc_error = PackageDataRequired | CatchBlockTypeError

text \<open>The \<open>for (const rule of rules)\<close> loop, threading \<open>score\<close> and \<open>ruleResults\<close>.\<close>

fun evaluateRules ::
  "'d rule list \<Rightarrow> package_data \<Rightarrow> number \<times> 'd rule_result list \<Rightarrow>
     calc_error + number \<times> 'd rule_result list"
where
  "evaluateRules [] p st = Inr st"
| "evaluateRules (r # rs) p (sc, results) =
     (case evaluate r p of
        Inr result \<Rightarrow>
          evaluateRules rs p
            (sc - numOr (deduction result) 0 + numOr (bonus result) 0,
             results @ [result_entry r result])
      | Inl Nullish \<Rightarrow> Inl CatchBlockTypeError
      | Inl (Thrown message) \<Rightarrow> evaluateRules rs p (sc, results @ [error_entry r message]))"

text \<open>\<open>Math.max(minScore, Math.min(maxScore, score))\<close>.\<close>

definition clampScore :: "score_config \<Rightarrow> number \<Rightarrow> number" where
  "clampScore cfg sc = Math_max (minScore cfg) (Math_min (maxScore cfg) sc)"

text \<open>\<open>Math.round(score * 100) / 100\<close>.\<close>

definition round2 :: "number \<Rightarrow> number" where
  "round2 sc = Math_round (sc * Finite 100) / Finite 100"

text \<open>
  \<open>calculateScore\<close>. The band function and the clock (\<open>new Date().toISOString()\<close>)
  are parameters; a falsy \<open>packageData\<close> is \<open>None\<close>, and a rejection of the returned
  promise is \<open>Inl\<close>.
\<close>

definition calculateScore ::
  "(number \<Rightarrow> band) \<Rightarrow> string \<Rightarrow> 'd ScoreCalculator \<Rightarrow> package_data option \<Rightarrow>
     calc_error + 'd score_result" where
  "calculateScore gsb now calc packageData =
     (case packageData of
        None \<Rightarrow> Inl PackageDataRequired
      | Some pd \<Rightarrow>
          (case evaluateRules (getActiveRules (ruleRegistry calc)) pd
                  (baseScore (config calc), []) of
             Inl e \<Rightarrow> Inl e
           | Inr (sc, results) \<Rightarrow>
               (let sc' = clampScore (config calc) sc;
                    b = gsb sc'
                in Inr \<lparr>score = round2 sc',
                        band = b,
                        ruleResults = results,
                        packageName = name pd,
                        packageVersion = version pd,
                        timestamp = now\<rparr>)))"

text \<open>The running score after the loop, before clamping, when the loop completes.\<close>

definition rawScore :: "'d ScoreCalculator \<Rightarrow> package_data \<Rightarrow> number option" where
  "rawScore calc p =
     (case evaluateRules (getActiveRules (ruleRegistry calc)) p (baseScore (config calc), []) of
        Inl _ \<Rightarrow> None
      | Inr (sc, _) \<Rightarrow> Some sc)"

text \<open>Concrete inputs used to evaluate the calculator.\<close>

definition clock :: string where
  "clock = ''2024-01-01T00:00:00.000Z''"

definition ex_pkg :: package_data where
  "ex_pkg = \<lparr>name = Some ''pkg'', version = Some ''1.0.0'', unpackedSize = None,
      scripts = [], dependencies = [], time = None\<rparr>"

definition deduct_rule :: "string \<Rightarrow> number \<Rightarrow> unit rule" where
  "deduct_rule n d = \<lparr>rule_name = n, rule_enabled = True,
     evaluate = (\<lambda>_. Inr \<lparr>deduction = Some d, bonus = None, details = None, riskLevel = None\<rparr>)\<rparr>"

definition bonus_rule :: "string \<Rightarrow> number \<Rightarrow> unit rule" where
  "bonus_rule n b = \<lparr>rule_name = n, rule_enabled = True,
     evaluate = (\<lambda>_. Inr \<lparr>deduction = None, bonus = Some b, details = None, riskLevel = None\<rparr>)\<rparr>"

text \<open>A rule whose \<open>evaluate\<close> does \<open>throw new Error(msg)\<close>, and one whose promise
  rejects with \<open>null\<close> (\<open>Promise.reject(null)\<close>, \<open>throw null\<close>).\<close>

definition throwing_rule :: "string \<Rightarrow> string \<Rightarrow> unit rule" where
  "throwing_rule n msg =
     \<lparr>rule_name = n, rule_enabled = True, evaluate = (\<lambda>_. Inl (Thrown (Some msg)))\<rparr>"

definition null_rejecting_rule :: "string \<Rightarrow> unit rule" where
  "null_rejecting_rule n = \<lparr>rule_name = n, rule_enabled = True, evaluate = (\<lambda>_. Inl Nullish)\<rparr>"

definition score_of :: "calc_error + 'd score_result \<Rightarrow> number option" where
  "score_of r = (case r of Inl _ \<Rightarrow> None | Inr res \<Rightarrow> Some (score res))"

definition band_of :: "calc_error + 'd score_result \<Rightarrow> band option" where
  "band_of r = (case r of Inl _ \<Rightarrow> None | Inr res \<Rightarrow> Some (band res))"

definition with_config :: "score_config \<Rightarrow> unit rule list \<Rightarrow> unit ScoreCalculator" where
  "with_config cfg rs = \<lparr>config = cfg, ruleRegistry = rs\<rparr>"

definition default_calc :: "unit rule list \<Rightarrow> unit ScoreCalculator" where
  "default_calc rs = with_config default_config rs"

text \<open>\<open>new ScoreCalculator({minScore: 0.0625})\<close> with one rule deducting 100.\<close>

definition low_min_calc :: "unit ScoreCalculator" where
  "low_min_calc =
     with_config (default_config\<lparr>minScore := Finite (1 / 16)\<rparr>)
       [deduct_rule ''big-deduction'' (Finite 100)]"

text \<open>The default calculator with a rule deducting \<open>Infinity\<close> and a rule adding
  \<open>Infinity\<close>.\<close>

definition infinite_calc :: "unit ScoreCalculator" where
  "infinite_calc = default_calc [deduct_rule ''rule1'' PosInf, bonus_rule ''rule2'' PosInf]"

text \<open>The default calculator with a rule that rejects with \<open>null\<close> and a rule that
  deducts 5.\<close>

definition null_calc :: "unit ScoreCalculator" where
  "null_calc = default_calc [null_rejecting_rule ''rule1'', deduct_rule ''rule2'' (Finite 5)]"

definition mixed_calc :: "unit ScoreCalculator" where
  "mixed_calc =
     default_calc [throwing_rule ''error-rule'' ''Rule error'', deduct_rule ''rule2'' (Finite 5)]"

text \<open>The default calculator with one rule deducting \<open>10.001\<close>, and a calculator with
  \<open>{maxScore: 89.999}\<close> and no rule.\<close>

definition near_band_calc :: "unit ScoreCalculator" where
  "near_band_calc = default_calc [deduct_rule ''rule1'' (num (10001 / 1000))]"

definition capped_calc :: "unit ScoreCalculator" where
  "capped_calc = with_config (default_config\<lparr>maxScore := num (89999 / 1000)\<rparr>) []"

section \<open>Regular expressions\<close>

text \<open>
  The rules test scripts against JavaScript regular expressions. A script is a
  \<open>string\<close> of code units below 256; the patterns use literals, \<open>.\<close>, character
  classes, \<open>\s\<close>, \<open>\b\<close>, sequence, alternation and the quantifiers \<open>*\<close>, \<open>+\<close>, \<open>?\<close>,
  \<open>{n,}\<close> and \<open>{n,m}\<close>. A pattern is a pair of its \<open>i\<close> flag and its syntax tree.
\<close>

datatype class_item = Single char | Range char char | SpaceClass

datatype regex =
    Chr char
  | AnyChar
  | Class bool "class_item list"
  | WordBoundary
  | Seq regex regex
  | Alt regex regex
  | Star regex
  | Plus regex
  | Opt regex
  | AtLeast nat regex
  | Between nat nat regex

type_synonym pattern = "bool \<times> regex"

definition code :: "char \<Rightarrow> int" where
  "code c = of_char c"

definition code_le :: "char \<Rightarrow> char \<Rightarrow> bool" where
  "code_le c d = (code c \<le> code d)"

definition between :: "char \<Rightarrow> char \<Rightarrow> char \<Rightarrow> bool" where
  "between lo hi c = (if code_le lo c then code_le c hi else False)"

definition is_lower :: "char \<Rightarrow> bool" where
  "is_lower c = between CHR ''a'' CHR ''z'' c"

definition is_upper :: "char \<Rightarrow> bool" where
  "is_upper c = between CHR ''A'' CHR ''Z'' c"

definition is_digit :: "char \<Rightarrow> bool" where
  "is_digit c = between CHR ''0'' CHR ''9'' c"

definition upcase :: "char \<Rightarrow> char" where
  "upcase c = (if is_lower c then char_of (code c - 32) else c)"

definition downcase :: "char \<Rightarrow> char" where
  "downcase c = (if is_upper c then char_of (code c + 32) else c)"

text \<open>The order of two code units, read off their bits (least significant first).\<close>

fun bits_le :: "bool list \<Rightarrow> bool list \<Rightarrow> bool" where
  "bits_le (a # as) (b # bs) = (if as = bs then (a \<longrightarrow> b) else bits_le as bs)"
| "bits_le _ _ = True"

text \<open>\<open>\s\<close>: tab, line feed, vertical tab, form feed, carriage return, space, no-break space.\<close>

definition is_space :: "char \<Rightarrow> bool" where
  "is_space c = (c \<in> set [CHR 0x09, CHR 0x0A, CHR 0x0B, CHR 0x0C, CHR 0x0D, CHR 0x20, CHR 0xA0])"

text \<open>\<open>\w\<close>, which decides \<open>\b\<close>.\<close>

definition is_word_char :: "char \<Rightarrow> bool" where
  "is_word_char c =
     (if is_lower c then True else if is_upper c then True else if is_digit c then True
      else c = CHR ''_'')"

definition is_line_terminator :: "char \<Rightarrow> bool" where
  "is_line_terminator c = (c \<in> set [CHR 0x0A, CHR 0x0D])"

text \<open>
  Under the \<open>i\<close> flag two characters match when their canonical forms agree. The
  patterns contain ASCII characters only, for which the canonical form is the upper-case
  letter; so a character is in a range when it, or under the \<open>i\<close> flag the same
  letter in the other case, lies between the bounds.
\<close>

definition canonicalize :: "bool \<Rightarrow> char \<Rightarrow> char" where
  "canonicalize ic c = (if ic then upcase c else c)"

fun item_matches :: "bool \<Rightarrow> class_item \<Rightarrow> char \<Rightarrow> bool" where
  "item_matches ic (Single d) c = (canonicalize ic d = canonicalize ic c)"
| "item_matches ic (Range lo hi) c =
     (if between lo hi c then True
      else if ic then
        (if is_lower c then between lo hi (upcase c)
         else if is_upper c then between lo hi (downcase c)
         else False)
      else False)"
| "item_matches ic SpaceClass c = is_space c"

text \<open>
  A position in the subject string is the rest of the string from there on, together
  with whether the character before it is a word character. \<open>rmatch ic r st\<close> lists
  the positions at which a match of \<open>r\<close> that starts at \<open>st\<close> can end. A repetition is
  iterated at most as many times as characters are left, which reaches every end
  position, since an iteration that consumes nothing adds none.
\<close>

type_synonym position = "bool \<times> string"

definition next_is_word :: "string \<Rightarrow> bool" where
  "next_is_word s = (case s of [] \<Rightarrow> False | c # _ \<Rightarrow> is_word_char c)"

definition step_all :: "(position \<Rightarrow> position list) \<Rightarrow> position list \<Rightarrow> position list" where
  "step_all f ps = concat (map f ps)"

fun iterate_n :: "nat \<Rightarrow> (position \<Rightarrow> position list) \<Rightarrow> position list \<Rightarrow> position list" where
  "iterate_n 0 f ps = ps"
| "iterate_n (Suc n) f ps = (if ps = [] then [] else iterate_n n f (step_all f ps))"

fun upto_n :: "nat \<Rightarrow> (position \<Rightarrow> position list) \<Rightarrow> position list \<Rightarrow> position list" where
  "upto_n 0 f ps = ps"
| "upto_n (Suc n) f ps = (if ps = [] then [] else ps @ upto_n n f (step_all f ps))"

definition one_char :: "(char \<Rightarrow> bool) \<Rightarrow> position \<Rightarrow> position list" where
  "one_char P st =
     (case snd st of [] \<Rightarrow> [] | c # cs \<Rightarrow> if P c then [(is_word_char c, cs)] else [])"

primrec rmatch :: "bool \<Rightarrow> regex \<Rightarrow> position \<Rightarrow> position list" where
  "rmatch ic (Chr d) = one_char (\<lambda>c. canonicalize ic d = canonicalize ic c)"
| "rmatch ic AnyChar = one_char (\<lambda>c. \<not> is_line_terminator c)"
| "rmatch ic (Class pos items) = one_char (\<lambda>c. list_ex (\<lambda>it. item_matches ic it c) items = pos)"
| "rmatch ic WordBoundary = (\<lambda>st. if fst st \<noteq> next_is_word (snd st) then [st] else [])"
| "rmatch ic (Seq r1 r2) = (\<lambda>st. step_all (rmatch ic r2) (rmatch ic r1 st))"
| "rmatch ic (Alt r1 r2) = (\<lambda>st. rmatch ic r1 st @ rmatch ic r2 st)"
| "rmatch ic (Star r) = (\<lambda>st. upto_n (length (snd st)) (rmatch ic r) [st])"
| "rmatch ic (Plus r) = (\<lambda>st. upto_n (length (snd st)) (rmatch ic r) (rmatch ic r st))"
| "rmatch ic (Opt r) = (\<lambda>st. st # rmatch ic r st)"
| "rmatch ic (AtLeast n r) =
     (\<lambda>st. upto_n (length (snd st)) (rmatch ic r) (iterate_n n (rmatch ic r) [st]))"
| "rmatch ic (Between n m r) =
     (\<lambda>st. upto_n (m - n) (rmatch ic r) (iterate_n n (rmatch ic r) [st]))"

text \<open>Every position of a string, from left to right.\<close>

fun positions :: "bool \<Rightarrow> string \<Rightarrow> position list" where
  "positions w [] = [(w, [])]"
| "positions w (c # cs) = (w, c # cs) # positions (is_word_char c) cs"

text \<open>
  \<open>pattern.test(s)\<close>: a match starts at some position of \<open>s\<close>. \<open>s.match(pattern)\<close>
  with the \<open>g\<close> flag is non-null with at least one element in the same case.
\<close>

definition test :: "pattern \<Rightarrow> string \<Rightarrow> bool" where
  "test p s = list_ex (\<lambda>st. rmatch (fst p) (snd p) st \<noteq> []) (positions False s)"

text \<open>Building blocks of the pattern tables.\<close>

fun lit :: "string \<Rightarrow> regex" where
  "lit [] = Between 0 0 AnyChar"
| "lit [c] = Chr c"
| "lit (c # cs) = Seq (Chr c) (lit cs)"

fun seqs :: "regex list \<Rightarrow> regex" where
  "seqs [] = Between 0 0 AnyChar"
| "seqs [r] = r"
| "seqs (r # rs) = Seq r (seqs rs)"

definition ws :: regex where
  "ws = Class True [SpaceClass]"

definition nws :: regex where
  "nws = Class False [SpaceClass]"

definition quote :: regex where
  "quote = Class True [Single (CHR 0x27), Single (CHR 0x22)]"

text \<open>\<open>/\bW\s+[^\s]+/i\<close>\<close>

definition tool :: "string \<Rightarrow> pattern" where
  "tool w = (True, seqs [WordBoundary, lit w, Plus ws, Plus nws])"

text \<open>\<open>/\brequire\s*\(\s*['"]M['"]\s*\)/i\<close>\<close>

definition req :: "regex \<Rightarrow> pattern" where
  "req m = (True, seqs [WordBoundary, lit ''require'', Star ws, Chr CHR ''('', Star ws, quote, m,
      quote, Star ws, Chr CHR '')''])"

text \<open>\<open>/\bW\s*\(/i\<close>\<close>

definition call :: "string \<Rightarrow> pattern" where
  "call w = (True, seqs [WordBoundary, lit w, Star ws, Chr CHR ''(''])"

text \<open>\<open>/\bPRE.*\|\s*SH/i\<close>\<close>

definition piped :: "regex list \<Rightarrow> string \<Rightarrow> pattern" where
  "piped pre sh =
     (True, seqs (WordBoundary # pre @ [Star AnyChar, Chr CHR ''|'', Star ws, lit sh]))"

text \<open>Indices of the patterns of a table that match the script, in table order.\<close>

fun matchingFrom :: "nat \<Rightarrow> pattern list \<Rightarrow> string \<Rightarrow> nat list" where
  "matchingFrom k [] script = []"
| "matchingFrom k (p # ps) script =
     (if test p script then k # matchingFrom (Suc k) ps script
      else matchingFrom (Suc k) ps script)"

definition matching :: "pattern list \<Rightarrow> string \<Rightarrow> nat list" where
  "matching ps script = matchingFrom 0 ps script"

section \<open>Lifecycle-script risk rule\<close>

text \<open>
  Modelled from the spec: the base rule (\<open>core/BaseRule\<close>) is not among the sources.
  A rule carries its weight and the \<open>enabled\<close> flag that \<open>isEnabled()\<close> reads.
\<close>

record base_rule =
  weight :: number
  enabled :: bool

text \<open>
  \<open>utils/packageAnalyzer\<close> is not among the sources either: its three functions the
  rules call are parameters of the model.
\<close>

record PackageAnalyzer =
  extractLifecycleScripts :: "package_data \<Rightarrow> (string \<times> string) list"
  normalizeScript :: "string \<Rightarrow> string"
  extractDependencies :: "package_data \<Rightarrow> (string \<times> (string \<times> string) list) list"

text \<open>The three pattern tables of the constructor, in source order.\<close>

definition suspiciousCommands :: "pattern list" where
  "suspiciousCommands =
    [tool ''curl'', tool ''wget'', tool ''http'', tool ''ftp'', tool ''nc'', tool ''netcat'',
     tool ''telnet'',
     req (Seq (lit ''http'') (Opt (Chr CHR ''s''))), req (lit ''http''), req (lit ''https''),
     req (lit ''request''), req (lit ''axios''),
     call ''fetch'',
     (True, Seq WordBoundary (lit ''XMLHttpRequest'')),
     (True, Seq WordBoundary (lit ''download'')),
     (True, seqs [WordBoundary, lit ''wget'', Plus ws, Star AnyChar, lit ''http'']),
     (True, seqs [WordBoundary, lit ''curl'', Plus ws, Star AnyChar, lit ''http'']),
     call ''eval'', call ''Function'', call ''exec'', call ''execSync'', call ''spawn'',
     call ''spawnSync'']"

definition base64ish :: regex where
  "base64ish = Class True [Range CHR ''A'' CHR ''Z'', Range CHR ''a'' CHR ''z'',
     Range CHR ''0'' CHR ''9'', Single CHR ''+'', Single CHR ''/'']"

definition hexdigit :: regex where
  "hexdigit = Class True [Range CHR ''0'' CHR ''9'', Range CHR ''a'' CHR ''f'',
     Range CHR ''A'' CHR ''F'']"

definition obfuscationPatterns :: "pattern list" where
  "obfuscationPatterns =
    [(False, Seq (AtLeast 50 base64ish) (Between 0 2 (Chr CHR ''=''))),
     (False, seqs [Chr (CHR 0x5C), Chr CHR ''x'', Between 2 2 hexdigit]),
     (True, seqs [lit ''String'', Chr CHR ''.'', lit ''fromCharCode'', Star ws, Chr CHR ''('']),
     (True, seqs [WordBoundary, lit ''eval'', Star ws, Chr CHR ''('', Star ws, lit ''eval'',
        Star ws, Chr CHR ''('']),
     (True, seqs [WordBoundary, Class True [Range CHR ''a'' CHR ''z''], Chr CHR ''$'',
        Plus (Class True [Range CHR ''a'' CHR ''z'', Range CHR ''0'' CHR ''9'']), Chr CHR ''$''])]"

definition highRiskPatterns :: "pattern list" where
  "highRiskPatterns =
    [piped [lit ''curl'', Plus ws] ''sh'', piped [lit ''curl'', Plus ws] ''bash'',
     piped [lit ''wget'', Plus ws] ''sh'', piped [lit ''wget'', Plus ws] ''bash'',
     piped [lit ''http''] ''sh'', piped [lit ''http''] ''bash'',
     (True, seqs [WordBoundary, lit ''eval'', Star ws, Chr CHR ''('', Star ws, Star AnyChar,
        lit ''http'']),
     (True, seqs [WordBoundary, lit ''Function'', Star ws, Chr CHR ''('', Star ws, Star AnyChar,
        lit ''http''])]"

text \<open>
  An issue records its type and, in place of \<open>pattern.toString()\<close>, the index of the
  pattern in its table; the chaining issue records \<open>chainCount\<close>. The descriptions and
  the number of matches of an obfuscation pattern are left out.
\<close>

datatype issue = HighRiskPattern nat | SuspiciousCommand nat | Obfuscation nat
  | ExcessiveChaining nat

record script_analysis =
  risk :: nat
  sa_riskLevel :: string
  issues :: "issue list"
  isHighRisk :: bool

text \<open>\<open>script.match(/&&|\|\||;/g)\<close>: the number of matches, found left to right.\<close>

fun countChains :: "string \<Rightarrow> nat" where
  "countChains [] = 0"
| "countChains [c] = (if c = CHR '';'' then 1 else 0)"
| "countChains (c # d # cs) =
     (if c = CHR ''&'' \<and> d = CHR ''&'' then Suc (countChains cs)
      else if c = CHR ''|'' \<and> d = CHR ''|'' then Suc (countChains cs)
      else if c = CHR '';'' then Suc (countChains (d # cs))
      else countChains (d # cs))"

text \<open>The per-script ladder at the end of \<open>_analyzeScript\<close>.\<close>

definition riskTier :: "bool \<Rightarrow> nat \<Rightarrow> string" where
  "riskTier high r =
     (if high \<or> r \<ge> 3 then ''high'' else if r \<ge> 2 then ''medium''
      else if r \<ge> 1 then ''low'' else ''none'')"

text \<open>
  \<open>_analyzeScript\<close>: the first matching high-risk pattern adds 3 and ends that loop,
  every matching suspicious pattern adds 1, every matching obfuscation pattern adds 2,
  three or more chain operators add 1.
\<close>

definition analyzeScript :: "string \<Rightarrow> script_analysis" where
  "analyzeScript script =
     (let high = matching highRiskPatterns script;
          issues1 = (case high of [] \<Rightarrow> [] | k # _ \<Rightarrow> [HighRiskPattern k]);
          risk1 = (case high of [] \<Rightarrow> 0 | _ # _ \<Rightarrow> 3);
          isHigh = (high \<noteq> []);
          susp = matching suspiciousCommands script;
          issues2 = issues1 @ map SuspiciousCommand susp;
          risk2 = risk1 + length susp;
          obf = matching obfuscationPatterns script;
          issues3 = issues2 @ map Obfuscation obf;
          risk3 = risk2 + 2 * length obf;
          chains = countChains script;
          issues4 = issues3 @ (if chains \<ge> 3 then [ExcessiveChaining chains] else []);
          risk4 = risk3 + (if chains \<ge> 3 then 1 else 0)
      in \<lparr>risk = risk4, sa_riskLevel = riskTier isHigh risk4, issues = issues4,
           isHighRisk = isHigh\<rparr>)"

record script_finding =
  f_hook :: string
  f_script :: string
  f_risk :: nat
  f_riskLevel :: string
  f_issues :: "issue list"
  f_isHighRisk :: bool

record lifecycle_report =
  lc_findings :: "script_finding list"
  totalScripts :: nat
  riskyScripts :: nat
  totalRisk :: nat
  hasHighRisk :: bool

datatype lifecycle_details = LifecycleReason string | LifecycleReport lifecycle_report

text \<open>The loop over \<open>Object.entries(lifecycleScripts)\<close>, threading \<open>findings\<close>,
  \<open>totalRisk\<close> and \<open>hasHighRisk\<close>.\<close>

fun analyzeScripts ::
  "PackageAnalyzer \<Rightarrow> (string \<times> string) list \<Rightarrow> script_finding list \<times> nat \<times> bool \<Rightarrow>
     script_finding list \<times> nat \<times> bool" where
  "analyzeScripts pa [] st = st"
| "analyzeScripts pa ((h, s) # rest) (fs, tot, high) =
     (let normalizedScript = normalizeScript pa s;
          scriptAnalysis = analyzeScript normalizedScript
      in if risk scriptAnalysis > 0
         then analyzeScripts pa rest
                (fs @ [\<lparr>f_hook = h, f_script = normalizedScript, f_risk = risk scriptAnalysis,
                        f_riskLevel = sa_riskLevel scriptAnalysis,
                        f_issues = issues scriptAnalysis,
                        f_isHighRisk = isHighRisk scriptAnalysis\<rparr>],
                 tot + risk scriptAnalysis,
                 high \<or> isHighRisk scriptAnalysis)
         else analyzeScripts pa rest (fs, tot, high))"

text \<open>The deduction ladder and the risk-level expression of \<open>evaluate\<close>.\<close>

definition lifecycleDeduction :: "number \<Rightarrow> bool \<Rightarrow> nat \<Rightarrow> number" where
  "lifecycleDeduction w high tot =
     (if high \<or> tot \<ge> 3 then w
      else if tot \<ge> 2 then Math_floor (w * Finite (3 / 4))
      else if tot \<ge> 1 then Math_floor (w * Finite (1 / 2))
      else 0)"

definition lifecycleRiskLevel :: "bool \<Rightarrow> nat \<Rightarrow> string" where
  "lifecycleRiskLevel high tot =
     (if high then ''high'' else if tot \<ge> 2 then ''medium''
      else if tot \<ge> 1 then ''low'' else ''none'')"

text \<open>\<open>LifecycleScriptRiskRule.evaluate\<close>.\<close>

definition lifecycle_evaluate ::
  "PackageAnalyzer \<Rightarrow> base_rule \<Rightarrow> package_data \<Rightarrow> lifecycle_details rule_output" where
  "lifecycle_evaluate pa rule packageData =
     (if \<not> enabled rule
      then \<lparr>deduction = Some 0, bonus = None,
            details = Some (LifecycleReason ''Rule is disabled''), riskLevel = Some ''none''\<rparr>
      else
        (let lifecycleScripts = extractLifecycleScripts pa packageData
         in if length lifecycleScripts = 0
            then \<lparr>deduction = Some 0, bonus = None,
                  details = Some (LifecycleReason ''No lifecycle scripts found''),
                  riskLevel = Some ''none''\<rparr>
            else
              (let (fs, tot, high) = analyzeScripts pa lifecycleScripts ([], 0, False)
               in \<lparr>deduction = Some (lifecycleDeduction (weight rule) high tot),
                    bonus = None,
                    details = Some (LifecycleReport
                      \<lparr>lc_findings = fs, totalScripts = length lifecycleScripts,
                       riskyScripts = length fs, totalRisk = tot, hasHighRisk = high\<rparr>),
                    riskLevel = Some (lifecycleRiskLevel high tot)\<rparr>)))"

text \<open>The constructor: weight 30 unless given, enabled.\<close>

definition LifecycleScriptRiskRule :: "number \<Rightarrow> base_rule" where
  "LifecycleScriptRiskRule w = \<lparr>weight = w, enabled = True\<rparr>"

text \<open>
  An analyzer for concrete evaluations: the scripts of the snapshot are its lifecycle
  scripts and are already normalised.
\<close>

definition plainAnalyzer :: PackageAnalyzer where
  "plainAnalyzer = \<lparr>extractLifecycleScripts = scripts, normalizeScript = (\<lambda>s. s),
      extractDependencies = dependencies\<rparr>"

definition withScripts :: "(string \<times> string) list \<Rightarrow> package_data" where
  "withScripts ss = \<lparr>name = Some ''pkg'', version = Some ''1.0.0'', unpackedSize = None,
      scripts = ss, dependencies = [], time = None\<rparr>"

definition reportOf :: "lifecycle_details rule_output \<Rightarrow> lifecycle_report option" where
  "reportOf out = (case details out of Some (LifecycleReport r) \<Rightarrow> Some r | _ \<Rightarrow> None)"

section \<open>Update-behavior rule\<close>

text \<open>
  A version history maps version strings to the metadata of that version (possibly
  \<open>null\<close>); it is an association list in property order with distinct keys. The
  registry client's \<open>getAllVersions\<close> throws (\<open>Inl\<close> of the message), resolves to
  \<open>null\<close> or resolves to a history.
\<close>

type_synonym history = "(string \<times> package_data option) list"

record update_rule = base_rule +
  getAllVersions :: "string \<Rightarrow> string + history option"
  sizeIncreaseThreshold :: number
  maxVersionsToAnalyze :: int
  versionJumpThreshold :: number

record update_config =
  cfg_sizeIncreaseThreshold :: "number option"
  cfg_maxVersionsToAnalyze :: "int option"
  cfg_versionJumpThreshold :: "number option"

text \<open>\<open>config.x || d\<close> on an integer: a missing or zero value gives the default.\<close>

definition orDefault :: "int option \<Rightarrow> int \<Rightarrow> int" where
  "orDefault v d = (case v of None \<Rightarrow> d | Some x \<Rightarrow> if x = 0 then d else x)"

text \<open>The constructor, given the registry client to use.\<close>

definition UpdateBehaviorRule ::
  "number \<Rightarrow> (string \<Rightarrow> string + history option) \<Rightarrow> update_config \<Rightarrow> update_rule" where
  "UpdateBehaviorRule w client cfg =
     \<lparr>weight = w, enabled = True, getAllVersions = client,
      sizeIncreaseThreshold = numOr (cfg_sizeIncreaseThreshold cfg) (Finite (1 / 2)),
      maxVersionsToAnalyze = orDefault (cfg_maxVersionsToAnalyze cfg) 10,
      versionJumpThreshold = numOr (cfg_versionJumpThreshold cfg) (Finite 2)\<rparr>"

definition defaultUpdateConfig :: update_config where
  "defaultUpdateConfig = \<lparr>cfg_sizeIncreaseThreshold = None, cfg_maxVersionsToAnalyze = None,
     cfg_versionJumpThreshold = None\<rparr>"

subsection \<open>Semantic versions\<close>

record parsed_version =
  major :: number
  minor :: number
  patch :: number
  prerelease :: "string option"
  build :: "string option"

text \<open>
  \<open>parseInt(ds, 10)\<close> on a non-empty string of decimal digits: the integer the digits
  denote (\<open>digitsValue\<close>), as the nearest double. Up to \<open>2^53\<close> that is the integer
  itself; above, neighbouring integers parse to the same number.
\<close>

definition digitTable :: "(char \<times> int) list" where
  "digitTable = zip ''0123456789'' [0, 1, 2, 3, 4, 5, 6, 7, 8, 9]"

definition digitValue :: "char \<Rightarrow> int" where
  "digitValue c = (case map_of digitTable c of None \<Rightarrow> 0 | Some d \<Rightarrow> d)"

definition digitsValue :: "string \<Rightarrow> int" where
  "digitsValue ds = foldl (\<lambda>n c. 10 * n + digitValue c) 0 ds"

definition parseInt :: "string \<Rightarrow> number" where
  "parseInt ds = rd (of_int (digitsValue ds))"

text \<open>
  The tail of the version pattern, \<open>(?:-(.+))?(?:\+(.+))?$\<close>: nothing, or \<open>-\<close> or
  \<open>+\<close> followed by at least one character, none of them a line terminator. The
  greedy \<open>(.+)\<close> after \<open>-\<close> takes the whole rest, so the build group is set only when
  the tail starts with \<open>+\<close>.
\<close>

definition parseSuffix :: "string \<Rightarrow> (string option \<times> string option) option" where
  "parseSuffix r =
     (case r of
        [] \<Rightarrow> Some (None, None)
      | c # rest \<Rightarrow>
          if rest = [] \<or> list_ex is_line_terminator rest then None
          else if c = CHR ''-'' then Some (Some rest, None)
          else if c = CHR ''+'' then Some (None, Some rest)
          else None)"

text \<open>\<open>(\d+)\.\<close> at the start of a string: the digits and what follows the dot.\<close>

definition digitsThenDot :: "string \<Rightarrow> (string \<times> string) option" where
  "digitsThenDot s =
     (let ds = takeWhile is_digit s in
      case dropWhile is_digit s of
        [] \<Rightarrow> None
      | c # rest \<Rightarrow> if ds \<noteq> [] \<and> c = CHR ''.'' then Some (ds, rest) else None)"

text \<open>
  The match of \<open>/^(\d+)\.(\d+)\.(\d+)(?:-(.+))?(?:\+(.+))?$/\<close> on a string: its five
  groups, when it matches.
\<close>

definition versionGroups ::
  "string \<Rightarrow> (string \<times> string \<times> string \<times> string option \<times> string option) option" where
  "versionGroups s =
     (case digitsThenDot s of
        None \<Rightarrow> None
      | Some (d1, r1) \<Rightarrow>
          (case digitsThenDot r1 of
             None \<Rightarrow> None
           | Some (d2, r2) \<Rightarrow>
               (let d3 = takeWhile is_digit r2 in
                if d3 = [] then None
                else case parseSuffix (dropWhile is_digit r2) of
                       None \<Rightarrow> None
                     | Some (pre, bld) \<Rightarrow> Some (d1, d2, d3, pre, bld))))"

text \<open>\<open>version.replace(/^v/, '')\<close>: one leading \<open>v\<close> is removed.\<close>

definition cleanVersion :: "string \<Rightarrow> string" where
  "cleanVersion ver = (case ver of [] \<Rightarrow> [] | c # cs \<Rightarrow> if c = CHR ''v'' then cs else ver)"

text \<open>\<open>_parseVersion\<close>.\<close>

definition parseVersion :: "string \<Rightarrow> parsed_version option" where
  "parseVersion ver =
     (case versionGroups (cleanVersion ver) of
        None \<Rightarrow> None
      | Some (d1, d2, d3, pre, bld) \<Rightarrow>
          Some \<lparr>major = parseInt d1, minor = parseInt d2, patch = parseInt d3,
                prerelease = pre, build = bld\<rparr>)"

record version_jump =
  isUnusual :: bool
  jump_type :: "string option"
  magnitude :: "number option"

text \<open>\<open>_analyzeVersionJump\<close>.\<close>

definition analyzeVersionJump :: "update_rule \<Rightarrow> string \<Rightarrow> string \<Rightarrow> version_jump" where
  "analyzeVersionJump rule prevVersion currVersion =
     (case (parseVersion prevVersion, parseVersion currVersion) of
        (Some prev, Some cur) \<Rightarrow>
          if versionJumpThreshold rule \<le> major cur - major prev
          then \<lparr>isUnusual = True, jump_type = Some ''major-jump'',
                magnitude = Some (major cur - major prev)\<rparr>
          else if num_eq (major cur) (major prev) \<and> Finite 5 < minor cur - minor prev
          then \<lparr>isUnusual = True, jump_type = Some ''minor-jump'',
                magnitude = Some (minor cur - minor prev)\<rparr>
          else \<lparr>isUnusual = False, jump_type = None, magnitude = None\<rparr>
      | _ \<Rightarrow> \<lparr>isUnusual = False, jump_type = None, magnitude = None\<rparr>)"

text \<open>
  \<open>_compareVersionStrings\<close>; \<open>String.prototype.localeCompare\<close>, which depends on the
  host's locale, is a parameter.
\<close>

definition compareVersionStrings ::
  "(string \<Rightarrow> string \<Rightarrow> number) \<Rightarrow> string \<Rightarrow> string \<Rightarrow> number" where
  "compareVersionStrings localeCompare a b =
     (case (parseVersion a, parseVersion b) of
        (Some aParsed, Some bParsed) \<Rightarrow>
          if \<not> num_eq (major aParsed) (major bParsed) then major aParsed - major bParsed
          else if \<not> num_eq (minor aParsed) (minor bParsed) then minor aParsed - minor bParsed
          else if \<not> num_eq (patch aParsed) (patch bParsed) then patch aParsed - patch bParsed
          else 0
      | _ \<Rightarrow> localeCompare a b)"

subsection \<open>Sorting\<close>

text \<open>
  \<open>Array.prototype.sort\<close> is stable; it is modelled as an insertion sort that puts an
  element before the first later element it does not exceed: an element moves behind
  another only when the comparator's result is greater than zero (a NaN result counts
  as zero). Called without a compare function (or with \<open>undefined\<close>) it orders strings
  by their code units.
\<close>

fun insert_by :: "('a \<Rightarrow> 'a \<Rightarrow> number) \<Rightarrow> 'a \<Rightarrow> 'a list \<Rightarrow> 'a list" where
  "insert_by cmp x [] = [x]"
| "insert_by cmp x (y # ys) = (if 0 < cmp x y then y # insert_by cmp x ys else x # y # ys)"

definition sort_by :: "('a \<Rightarrow> 'a \<Rightarrow> number) \<Rightarrow> 'a list \<Rightarrow> 'a list" where
  "sort_by cmp xs = foldr (insert_by cmp) xs []"

fun string_less :: "string \<Rightarrow> string \<Rightarrow> bool" where
  "string_less [] [] = False"
| "string_less [] (d # ds) = True"
| "string_less (c # cs) [] = False"
| "string_less (c # cs) (d # ds) = (if c = d then string_less cs ds else code_le c d)"

definition defaultCompare :: "string \<Rightarrow> string \<Rightarrow> number" where
  "defaultCompare a b =
     (if string_less a b then Finite (- 1) else if string_less b a then Finite 1 else 0)"

text \<open>\<open>xs.slice(start, stop)\<close> with integer arguments; \<open>stop\<close> may be omitted.\<close>

definition slice :: "'a list \<Rightarrow> int \<Rightarrow> int option \<Rightarrow> 'a list" where
  "slice xs start stop =
     (let len = int (length xs);
          k = (if start < 0 then max (len + start) 0 else min start len);
          e = (case stop of None \<Rightarrow> len
               | Some t \<Rightarrow> if t < 0 then max (len + t) 0 else min t len)
      in take (nat (e - k)) (drop (nat k) xs))"

text \<open>\<open>xs.indexOf(x)\<close>; \<open>None\<close> is \<open>-1\<close>.\<close>

fun indexOf :: "'a list \<Rightarrow> 'a \<Rightarrow> nat option" where
  "indexOf [] x = None"
| "indexOf (y # ys) x = (if y = x then Some 0 else map_option Suc (indexOf ys x))"

subsection \<open>Version jumps\<close>

record jump =
  jump_from :: string
  jump_to :: string
  jump_kind :: "string option"
  jump_magnitude :: "number option"

text \<open>\<open>_detectVersionJumps\<close>: sorts a copy with \<open>_compareVersionStrings\<close> and tests
  each consecutive pair.\<close>

definition detectVersionJumps ::
  "update_rule \<Rightarrow> (string \<Rightarrow> string \<Rightarrow> number) \<Rightarrow> string list \<Rightarrow> jump list" where
  "detectVersionJumps rule localeCompare versions =
     (let sortedVersions = sort_by (compareVersionStrings localeCompare) versions in
      concat (map (\<lambda>(prev, cur).
          let j = analyzeVersionJump rule prev cur in
          if isUnusual j
          then [\<lparr>jump_from = prev, jump_to = cur, jump_kind = jump_type j,
                  jump_magnitude = magnitude j\<rparr>]
          else [])
        (zip sortedVersions (tl sortedVersions))))"

subsection \<open>Comparing two versions\<close>

text \<open>The pattern table of \<open>_isSuspiciousScript\<close>.\<close>

definition suspiciousPatterns :: "pattern list" where
  "suspiciousPatterns =
     [tool ''curl'', tool ''wget'', call ''eval'', call ''fetch'',
      req (Seq (lit ''http'') (Opt (Chr CHR ''s''))),
      piped [lit ''curl'', Plus ws] ''sh'', piped [lit ''curl'', Plus ws] ''bash'',
      piped [lit ''wget'', Plus ws] ''sh'', piped [lit ''wget'', Plus ws] ''bash'']"

definition isSuspiciousScript :: "string option \<Rightarrow> bool" where
  "isSuspiciousScript script =
     (case script of
        None \<Rightarrow> False
      | Some s \<Rightarrow> if s = [] then False else list_ex (\<lambda>p. test p s) suspiciousPatterns)"

record size_change =
  previous :: number
  current :: number
  increase :: number
  increasePercent :: number
  severity :: string

record script_changes =
  hasChanges :: bool
  added :: "(string \<times> string) list"
  removed :: "(string \<times> string) list"
  modified :: "(string \<times> string \<times> string) list"
  newSuspiciousScripts :: "(string \<times> string) list"

record dependency_changes =
  hasSignificantChanges :: bool
  dep_added :: "(string \<times> string \<times> string) list"
  dep_removed :: "(string \<times> string \<times> string) list"
  totalAdded :: nat
  totalRemoved :: nat

record changes =
  hasIssues :: bool
  sizeChange :: "size_change option"
  scriptChanges :: "script_changes option"
  dependencyChanges :: "dependency_changes option"

text \<open>
  \<open>_detectScriptChanges\<close>: hooks added, removed and modified (after normalisation), and
  the newly suspicious scripts, first those among the added hooks, then those among the
  modified ones.
\<close>

definition detectScriptChanges ::
  "PackageAnalyzer \<Rightarrow> (string \<times> string) list \<Rightarrow> (string \<times> string) list \<Rightarrow> script_changes" where
  "detectScriptChanges pa prevScripts currScripts =
     (let prevHooks = map fst prevScripts;
          currHooks = map fst currScripts;
          addedScripts = filter (\<lambda>(h, s). h \<notin> set prevHooks) currScripts;
          removedScripts = filter (\<lambda>(h, s). h \<notin> set currHooks) prevScripts;
          modifiedScripts = concat (map (\<lambda>(h, p).
              case map_of currScripts h of
                None \<Rightarrow> []
              | Some c \<Rightarrow>
                  if normalizeScript pa p \<noteq> normalizeScript pa c
                  then [(h, normalizeScript pa p, normalizeScript pa c)] else [])
            prevScripts)
      in \<lparr>hasChanges = (addedScripts \<noteq> [] \<or> removedScripts \<noteq> [] \<or> modifiedScripts \<noteq> []),
          added = addedScripts,
          removed = removedScripts,
          modified = modifiedScripts,
          newSuspiciousScripts =
            filter (\<lambda>(h, s). isSuspiciousScript (Some s)) addedScripts @
            map (\<lambda>(h, p, c). (h, c))
              (filter (\<lambda>(h, p, c). \<not> isSuspiciousScript (Some p) \<and> isSuspiciousScript (Some c))
                 modifiedScripts)\<rparr>)"

definition depTypes :: "string list" where
  "depTypes = [''dependencies'', ''devDependencies'', ''peerDependencies'',
     ''optionalDependencies'']"

text \<open>\<open>deps[depType] || {}\<close>\<close>

definition depsOf ::
  "(string \<times> (string \<times> string) list) list \<Rightarrow> string \<Rightarrow> (string \<times> string) list" where
  "depsOf deps depType = (case map_of deps depType of None \<Rightarrow> [] | Some d \<Rightarrow> d)"

text \<open>\<open>_detectDependencyChanges\<close>: significant when more than ten names were added.\<close>

definition detectDependencyChanges ::
  "(string \<times> (string \<times> string) list) list \<Rightarrow> (string \<times> (string \<times> string) list) list \<Rightarrow>
     dependency_changes" where
  "detectDependencyChanges prevDeps currDeps =
     (let addedDeps = concat (map (\<lambda>depType.
            map (\<lambda>(dep, range). (dep, range, depType))
              (filter (\<lambda>(dep, range). dep \<notin> set (map fst (depsOf prevDeps depType)))
                 (depsOf currDeps depType))) depTypes);
          removedDeps = concat (map (\<lambda>depType.
            map (\<lambda>(dep, range). (dep, range, depType))
              (filter (\<lambda>(dep, range). dep \<notin> set (map fst (depsOf currDeps depType)))
                 (depsOf prevDeps depType))) depTypes)
      in \<lparr>hasSignificantChanges = (length addedDeps > 10),
          dep_added = addedDeps, dep_removed = removedDeps,
          totalAdded = length addedDeps, totalRemoved = length removedDeps\<rparr>)"

text \<open>
  \<open>_compareVersionMetadata\<close>. The size change is recorded when both sizes are positive
  and the relative increase exceeds the threshold; its textual description is left out.
\<close>

definition compareVersionMetadata ::
  "PackageAnalyzer \<Rightarrow> update_rule \<Rightarrow> package_data \<Rightarrow> package_data \<Rightarrow> changes" where
  "compareVersionMetadata pa rule prevMetadata currMetadata =
     (let prevSize = numOr (unpackedSize prevMetadata) 0;
          currSize = numOr (unpackedSize currMetadata) 0;
          sizeIncrease = (currSize - prevSize) / prevSize;
          sc = (if 0 < prevSize \<and> 0 < currSize \<and> sizeIncreaseThreshold rule < sizeIncrease
                then Some \<lparr>previous = prevSize, current = currSize, increase = sizeIncrease,
                       increasePercent = Math_round (sizeIncrease * Finite 100),
                       severity = (if Finite 1 < sizeIncrease then ''high'' else ''medium'')\<rparr>
                else None);
          scriptCh = detectScriptChanges pa (extractLifecycleScripts pa prevMetadata)
                       (extractLifecycleScripts pa currMetadata);
          depCh = detectDependencyChanges (extractDependencies pa prevMetadata)
                       (extractDependencies pa currMetadata)
      in \<lparr>hasIssues = (sc \<noteq> None \<or> hasChanges scriptCh \<or> hasSignificantChanges depCh),
          sizeChange = sc,
          scriptChanges = (if hasChanges scriptCh then Some scriptCh else None),
          dependencyChanges = (if hasSignificantChanges depCh then Some depCh else None)\<rparr>)"

subsection \<open>Analysing the history\<close>

text \<open>A finding is a pairwise change (from, to, changes, timestamp) or a version jump
  (from, to, jump type).\<close>

datatype finding =
    ChangeFinding string string changes "string option"
  | VersionJumpFinding string string "string option"

record analysis =
  findings :: "finding list"
  versionsAnalyzed :: nat
  totalVersions :: nat
  hasSuspiciousChanges :: bool

text \<open>
  The loop over \<open>versionsToAnalyze\<close>: \<open>prev\<close> is the last version that had metadata,
  with its metadata; a version without metadata is skipped, and a pair is compared
  when the previous version string is not empty.
\<close>

fun diffVersions ::
  "PackageAnalyzer \<Rightarrow> update_rule \<Rightarrow> history \<Rightarrow> string list \<Rightarrow>
     (string \<times> package_data) option \<Rightarrow> finding list \<Rightarrow> finding list" where
  "diffVersions pa rule h [] prev acc = acc"
| "diffVersions pa rule h (v # vs) prev acc =
     (case Option.bind (map_of h v) id of
        None \<Rightarrow> diffVersions pa rule h vs prev acc
      | Some versionMetadata \<Rightarrow>
          diffVersions pa rule h vs (Some (v, versionMetadata))
            (case prev of
               None \<Rightarrow> acc
             | Some (previousVersion, previousMetadata) \<Rightarrow>
                 if previousVersion = [] then acc
                 else (let ch = compareVersionMetadata pa rule previousMetadata versionMetadata
                       in if hasIssues ch
                          then acc @ [ChangeFinding previousVersion v ch (truthy (time versionMetadata))]
                          else acc)))"

text \<open>
  \<open>Object.keys(versionHistory).sort(this._compareVersions)\<close>. The class defines no
  method \<open>_compareVersions\<close> (the comparison it defines is \<open>_compareVersionStrings\<close>), so
  the argument is \<open>undefined\<close> and the keys are sorted in the default order.
\<close>

definition sortedKeys :: "history \<Rightarrow> string list" where
  "sortedKeys h = sort_by defaultCompare (map fst h)"

text \<open>
  The analysis window: the last \<open>maxVersionsToAnalyze\<close> versions, cut after the current
  version when it is among them, the last five of them otherwise.
\<close>

definition versionsToAnalyze :: "update_rule \<Rightarrow> package_data \<Rightarrow> history \<Rightarrow> string list" where
  "versionsToAnalyze rule currentPackage h =
     (let versions = sortedKeys h;
          currentVersion = (case truthy (version currentPackage) of
              Some v \<Rightarrow> Some v
            | None \<Rightarrow> if versions = [] then None else Some (last versions));
          recentVersions = slice versions (- maxVersionsToAnalyze rule) None;
          currentIndex = (case currentVersion of None \<Rightarrow> None | Some v \<Rightarrow> indexOf recentVersions v)
      in case currentIndex of
           Some i \<Rightarrow> slice recentVersions 0 (Some (int i + 1))
         | None \<Rightarrow> slice recentVersions (- 5) None)"

text \<open>\<open>_analyzeVersionChanges\<close>.\<close>

definition analyzeVersionChanges ::
  "PackageAnalyzer \<Rightarrow> (string \<Rightarrow> string \<Rightarrow> number) \<Rightarrow> update_rule \<Rightarrow> package_data \<Rightarrow>
     history \<Rightarrow> analysis" where
  "analyzeVersionChanges pa localeCompare rule currentPackage h =
     (let versions = sortedKeys h;
          toAnalyze = versionsToAnalyze rule currentPackage h;
          pairFindings = diffVersions pa rule h toAnalyze None [];
          versionJumps = detectVersionJumps rule localeCompare versions;
          fs = pairFindings @
            map (\<lambda>j. VersionJumpFinding (jump_from j) (jump_to j) (jump_kind j)) versionJumps
      in \<lparr>findings = fs, versionsAnalyzed = length toAnalyze, totalVersions = length versions,
          hasSuspiciousChanges = (fs \<noteq> [])\<rparr>)"

text \<open>What one finding adds to \<open>riskScore\<close>, and whether it sets \<open>hasHighRisk\<close>.\<close>

fun findingRisk :: "finding \<Rightarrow> nat \<times> bool" where
  "findingRisk (VersionJumpFinding f t k) = (1, False)"
| "findingRisk (ChangeFinding f t ch ts) =
     (let (r1, h1) = (case sizeChange ch of
              None \<Rightarrow> (0, False)
            | Some sc \<Rightarrow> if severity sc = ''high'' then (3, True) else (1, False));
          (r2, h2) = (case scriptChanges ch of
              None \<Rightarrow> (0, False)
            | Some sch \<Rightarrow>
                if length (newSuspiciousScripts sch) > 0
                then (length (newSuspiciousScripts sch) * 2, True)
                else if hasChanges sch then (1, False) else (0, False));
          r3 = (case dependencyChanges ch of
              None \<Rightarrow> 0
            | Some d \<Rightarrow> if hasSignificantChanges d then 1 else 0)
      in (r1 + r2 + r3, h1 \<or> h2))"

text \<open>\<open>_calculateRisk\<close>: the deduction and the risk level.\<close>

definition calculateRisk :: "update_rule \<Rightarrow> analysis \<Rightarrow> number \<times> string" where
  "calculateRisk rule a =
     (if \<not> hasSuspiciousChanges a \<or> length (findings a) = 0 then (0, ''none'')
      else
        (let riskScore = sum_list (map (fst \<circ> findingRisk) (findings a));
             highRisk = list_ex (snd \<circ> findingRisk) (findings a)
         in if highRisk \<or> riskScore \<ge> 5 then (weight rule, ''high'')
            else if riskScore \<ge> 3 then (Math_floor (weight rule * Finite (3 / 4)), ''medium'')
            else if riskScore \<ge> 1 then (Math_floor (weight rule * Finite (1 / 2)), ''low'')
            else (0, ''none'')))"

text \<open>The details of a result: a reason, a reason with the caught error's message, or
  the analysis with \<open>versionCount\<close> and \<open>analyzedVersions\<close>.\<close>

datatype update_details =
    Reason string
  | ReasonError string string
  | Analysis analysis nat nat

definition hasReason :: "update_details \<Rightarrow> bool" where
  "hasReason d = (case d of Reason r \<Rightarrow> True | ReasonError r e \<Rightarrow> True | Analysis a n m \<Rightarrow> False)"

definition softResult :: "update_details \<Rightarrow> update_details rule_output" where
  "softResult d = \<lparr>deduction = Some 0, bonus = None, details = Some d, riskLevel = Some ''none''\<rparr>"

text \<open>
  \<open>UpdateBehaviorRule.evaluate\<close>. The two guards come before the \<open>try\<close>; an error
  thrown by the registry client is rethrown by \<open>_fetchVersionHistory\<close> with a prefix and
  caught by the \<open>catch\<close> block, which returns a result.
\<close>

definition update_evaluate ::
  "PackageAnalyzer \<Rightarrow> (string \<Rightarrow> string \<Rightarrow> number) \<Rightarrow> update_rule \<Rightarrow>
     package_data option \<Rightarrow> update_details rule_output" where
  "update_evaluate pa localeCompare rule packageData =
     (if \<not> enabled rule then softResult (Reason ''Rule is disabled'')
      else case packageData of
        None \<Rightarrow> softResult (Reason ''Invalid package data'')
      | Some pd \<Rightarrow>
          (case truthy (name pd) of
             None \<Rightarrow> softResult (Reason ''Invalid package data'')
           | Some pkgName \<Rightarrow>
               (case getAllVersions rule pkgName of
                  Inl message \<Rightarrow>
                    softResult (ReasonError ''Could not analyze version history''
                      (''Failed to fetch version history: '' @ message))
                | Inr None \<Rightarrow> softResult (Reason ''Insufficient version history for analysis'')
                | Inr (Some h) \<Rightarrow>
                    if length h < 2
                    then softResult (Reason ''Insufficient version history for analysis'')
                    else (let a = analyzeVersionChanges pa localeCompare rule pd h;
                              (d, level) = calculateRisk rule a
                          in \<lparr>deduction = Some d, bonus = None,
                               details = Some (Analysis a (length h) (versionsAnalyzed a)),
                               riskLevel = Some level\<rparr>))))"

text \<open>Concrete metadata for evaluations: a version with the given unpacked size.\<close>

definition sized :: "number \<Rightarrow> package_data option" where
  "sized n = Some \<lparr>name = Some ''test-package'', version = None,
     unpackedSize = Some n, scripts = [], dependencies = [], time = None\<rparr>"

definition snapshotAt :: "string \<Rightarrow> package_data" where
  "snapshotAt v = \<lparr>name = Some ''test-package'', version = Some v,
     unpackedSize = Some (Finite 1000000), scripts = [], dependencies = [], time = None\<rparr>"

section \<open>Concrete inputs\<close>

text \<open>A history whose two versions differ in the minor number, 2 against 10, the later
  one three times as large.\<close>

definition history_2_10 :: history where
  "history_2_10 = [(''1.2.0'', sized (Finite 1000000)), (''1.10.0'', sized (Finite 3000000))]"

text \<open>Rules with the default configuration: one whose registry client throws, one whose
  client resolves to a given history.\<close>

definition offlineRule :: update_rule where
  "offlineRule = UpdateBehaviorRule (Finite 10) (\<lambda>n. Inl ''Network error'') defaultUpdateConfig"

definition servedRule :: "history option \<Rightarrow> update_rule" where
  "servedRule h = UpdateBehaviorRule (Finite 10) (\<lambda>n. Inr h) defaultUpdateConfig"

text \<open>A snapshot without a name.\<close>

definition unnamed :: package_data where
  "unnamed = \<lparr>name = None, version = Some ''1.0.0'', unpackedSize = None, scripts = [],
     dependencies = [], time = None\<rparr>"

text \<open>The snapshot with the two scripts of scenario 2, and one with a single script
  that downloads twice.\<close>

definition twoScripts :: package_data where
  "twoScripts =
     withScripts [(''postinstall'', ''curl http://x''), (''preinstall'', ''wget http://y'')]"

definition twoDownloads :: package_data where
  "twoDownloads = withScripts [(''postinstall'', ''curl http://x; wget http://y'')]"

section \<open>Archive ingestion\<close>

subsection \<open>Paths\<close>

text \<open>
  \<open>path.join\<close> and \<open>path.normalize\<close> of Node's POSIX implementation: the non-empty
  arguments are joined with \<open>/\<close>, then empty segments and \<open>.\<close> are dropped and \<open>..\<close>
  removes the segment before it; above the root of an absolute path \<open>..\<close> is dropped,
  in a relative path it is kept. A trailing separator is kept.
\<close>

fun splitPath :: "string \<Rightarrow> string list" where
  "splitPath [] = [[]]"
| "splitPath (c # cs) =
     (if c = CHR ''/'' then [] # splitPath cs
      else (case splitPath cs of [] \<Rightarrow> [[c]] | seg # segs \<Rightarrow> (c # seg) # segs))"

text \<open>The segments kept so far are held in reverse order.\<close>

fun normalizeSegments :: "bool \<Rightarrow> string list \<Rightarrow> string list \<Rightarrow> string list" where
  "normalizeSegments allowAboveRoot [] kept = rev kept"
| "normalizeSegments allowAboveRoot (seg # segs) kept =
     (if seg = [] \<or> seg = ''.'' then normalizeSegments allowAboveRoot segs kept
      else if seg = ''..'' then
        (case kept of
           [] \<Rightarrow> normalizeSegments allowAboveRoot segs (if allowAboveRoot then [''..''] else [])
         | k # ks \<Rightarrow>
             if k = ''..'' then
               normalizeSegments allowAboveRoot segs (if allowAboveRoot then ''..'' # kept else kept)
             else normalizeSegments allowAboveRoot segs ks)
      else normalizeSegments allowAboveRoot segs (seg # kept))"

fun joinWith :: "char \<Rightarrow> string list \<Rightarrow> string" where
  "joinWith sep [] = []"
| "joinWith sep [s] = s"
| "joinWith sep (s # ss) = s @ sep # joinWith sep ss"

definition path_normalize :: "string \<Rightarrow> string" where
  "path_normalize p =
     (if p = [] then ''.''
      else
        (let isAbsolute = (hd p = CHR ''/'');
             trailingSeparator = (last p = CHR ''/'');
             body = joinWith CHR ''/'' (normalizeSegments (\<not> isAbsolute) (splitPath p) [])
         in if body = [] then (if isAbsolute then ''/'' else if trailingSeparator then ''./'' else ''.'')
            else (if isAbsolute then ''/'' else []) @ body @
                 (if trailingSeparator then ''/'' else [])))"

definition path_join :: "string list \<Rightarrow> string" where
  "path_join args =
     (case filter (\<lambda>a. a \<noteq> []) args of
        [] \<Rightarrow> ''.''
      | a # as \<Rightarrow> path_normalize (joinWith CHR ''/'' (a # as)))"

text \<open>\<open>s.startsWith(p)\<close>\<close>

definition startsWith :: "string \<Rightarrow> string \<Rightarrow> bool" where
  "startsWith s p = (take (length p) s = p)"

text \<open>Containment of a normalised path in a root: the root itself or a path below it.\<close>

definition isInside :: "string \<Rightarrow> string \<Rightarrow> bool" where
  "isInside dir p = (p = dir \<or> startsWith p (dir @ ''/''))"

text \<open>\<open>s.replace('/', '_')\<close> replaces the first occurrence only.\<close>

fun replaceFirst :: "char \<Rightarrow> char \<Rightarrow> string \<Rightarrow> string" where
  "replaceFirst a b [] = []"
| "replaceFirst a b (c # cs) = (if c = a then b # cs else c # replaceFirst a b cs)"

subsection \<open>Extraction and file reads\<close>

datatype entry_type = FileEntry | DirectoryEntry | OtherEntry

record header =
  entry_name :: string
  entry_type :: entry_type

text \<open>
  The handler of one archive entry in \<open>_extractTarball\<close>: the path it creates (a
  directory) or writes (a file), or \<open>None\<close> when the entry is skipped by the prefix
  check or is neither a file nor a directory.
\<close>

definition entryTarget :: "string \<Rightarrow> header \<Rightarrow> string option" where
  "entryTarget extractPath h =
     (let filePath = path_join [extractPath, entry_name h]
      in if \<not> startsWith filePath extractPath then None
         else if entry_type h = DirectoryEntry then Some filePath
         else if entry_type h = FileEntry then Some filePath
         else None)"

text \<open>
  \<open>getFileContent\<close>, given what \<open>readFile\<close> does on a path (\<open>Inl\<close> of the error's
  message when it throws).
\<close>

definition getFileContent ::
  "(string \<Rightarrow> string + string) \<Rightarrow> string \<Rightarrow> string \<Rightarrow> string + string" where
  "getFileContent readFile extractPath filePath =
     (let fullPath = path_join [extractPath, ''package'', filePath]
      in if \<not> startsWith fullPath extractPath then Inl ''Invalid file path''
         else case readFile fullPath of
                Inl message \<Rightarrow> Inl (''Failed to read file: '' @ message)
              | Inr content \<Rightarrow> Inr content)"

subsection \<open>The file system\<close>

text \<open>
  A file-system object is identified by its resolved absolute path, the list of its
  segments: a relative path is taken from the working directory, empty segments and
  \<open>.\<close> are dropped and \<open>..\<close> removes the segment before it, so a trailing separator
  changes nothing. The file system is the list of the objects that exist, each a
  directory or a regular file; the root always exists. Symbolic links are not
  described.
\<close>

datatype node = Directory | RegularFile

type_synonym file_system = "(string list \<times> node) list"

definition segments :: "string \<Rightarrow> string \<Rightarrow> string list" where
  "segments cwd p =
     normalizeSegments False
       (splitPath (if p \<noteq> [] \<and> hd p = CHR ''/'' then p else cwd @ ''/'' @ p)) []"

definition lookup :: "file_system \<Rightarrow> string list \<Rightarrow> node option" where
  "lookup fs p = (if p = [] then Some Directory else map_of fs p)"

text \<open>\<open>below p q\<close>: \<open>q\<close> is \<open>p\<close> or lies under it.\<close>

definition below :: "string list \<Rightarrow> string list \<Rightarrow> bool" where
  "below p q = (take (length p) q = p)"

text \<open>The path itself and the directories above it, the root left out, outermost
  first.\<close>

definition ancestors :: "string list \<Rightarrow> string list list" where
  "ancestors p = map (\<lambda>n. take n p) [1..<Suc (length p)]"

text \<open>
  \<open>mkdir(p, {recursive: true})\<close>: creates the directory and the missing directories
  above it; it fails (\<open>Inl\<close> of the error code) when the path or one above it is a
  regular file.
\<close>

definition mkdir_p :: "string list \<Rightarrow> file_system \<Rightarrow> string + file_system" where
  "mkdir_p p fs =
     (if lookup fs p = Some RegularFile then Inl ''EEXIST''
      else if list_ex (\<lambda>q. lookup fs q = Some RegularFile) (ancestors p) then Inl ''ENOTDIR''
      else Inr (fs @ map (\<lambda>q. (q, Directory)) (filter (\<lambda>q. lookup fs q = None) (ancestors p))))"

text \<open>
  Opening a file for writing, as \<open>createWriteStream\<close> does, and writing it out: the
  directory of the file must exist and the path must not be a directory; otherwise the
  stream emits an error and nothing is written (\<open>None\<close>).
\<close>

definition writeFile :: "string list \<Rightarrow> file_system \<Rightarrow> file_system option" where
  "writeFile p fs =
     (if p \<noteq> [] \<and> lookup fs (butlast p) = Some Directory \<and> lookup fs p \<noteq> Some Directory
      then Some (if lookup fs p = None then fs @ [(p, RegularFile)] else fs)
      else None)"

text \<open>\<open>rm(p, {recursive: true, force: true})\<close> when it succeeds: the object and
  everything under it are gone; a missing path is no error.\<close>

definition rm_rf :: "string list \<Rightarrow> file_system \<Rightarrow> file_system" where
  "rm_rf p fs = filter (\<lambda>(q, n). \<not> below p q) fs"

subsection \<open>Extraction\<close>

text \<open>
  The \<open>entry\<close> handler of \<open>_extractTarball\<close>, one entry after the other. An entry that
  \<open>entryTarget\<close> skips changes nothing. For a directory entry the handler awaits
  \<open>mkdir\<close>; when that rejects, the rejection of the \<open>async\<close> handler is nobody's and
  \<open>next\<close> is never called. For a file entry the handler opens a write stream on the
  target without creating the directory above it and listens for \<open>finish\<close> only; when
  the stream cannot be opened its error has no listener, \<open>next\<close> is never called and
  the promise of \<open>_extractTarball\<close> is never settled. In both cases the extraction
  \<open>NeverSettles\<close>, with the file system as it was left.
\<close>

datatype extraction = Finished file_system | NeverSettles file_system

fun extractEntries :: "string \<Rightarrow> string \<Rightarrow> header list \<Rightarrow> file_system \<Rightarrow> extraction" where
  "extractEntries cwd extractPath [] fs = Finished fs"
| "extractEntries cwd extractPath (h # hs) fs =
     (case entryTarget extractPath h of
        None \<Rightarrow> extractEntries cwd extractPath hs fs
      | Some filePath \<Rightarrow>
          if entry_type h = DirectoryEntry
          then (case mkdir_p (segments cwd filePath) fs of
                  Inl e \<Rightarrow> NeverSettles fs
                | Inr fs' \<Rightarrow> extractEntries cwd extractPath hs fs')
          else (case writeFile (segments cwd filePath) fs of
                  None \<Rightarrow> NeverSettles fs
                | Some fs' \<Rightarrow> extractEntries cwd extractPath hs fs'))"

subsection \<open>analyzeTarball\<close>

text \<open>
  What the environment does during one call: whether creating the scratch directory
  fails for a reason of its own (permissions, say), whether the download fails (and
  then whether a partial \<open>package.tgz\<close> is left), whether creating the extraction
  directory fails for a reason of its own, the entries of the archive and whether the
  archive stream then reports an error, the result of \<open>_analyzeContents\<close> (which catches
  its own errors), and whether the two \<open>rm\<close> calls of the \<open>finally\<close> block fail. An
  error is the message thrown. A download that never settles is not described.
\<close>

record 'a effects =
  mkdirTemp :: "string option"
  download :: "(string \<times> bool) option"
  mkdirExtract :: "string option"
  tarEntries :: "header list"
  extractError :: "string option"
  analyzedContents :: 'a
  rmExtracted :: "string option"
  rmTemp :: "string option"

text \<open>\<open>await mkdir(p, {recursive: true})\<close> with the environment's own failure, if any.\<close>

definition mkdirRecursive ::
  "string option \<Rightarrow> string list \<Rightarrow> file_system \<Rightarrow> string + file_system" where
  "mkdirRecursive failure p fs = (case failure of Some e \<Rightarrow> Inl e | None \<Rightarrow> mkdir_p p fs)"

text \<open>
  \<open>_downloadTarball\<close>: the response is piped into a write stream on \<open>destPath\<close>, whose
  error rejects the promise. The result is the error thrown, if any, and the file
  system then; a download that fails on the network side may leave a partial file.
\<close>

definition downloadTarball ::
  "(string \<times> bool) option \<Rightarrow> string list \<Rightarrow> file_system \<Rightarrow> string option \<times> file_system" where
  "downloadTarball failure destPath fs =
     (case failure of
        Some (e, partial) \<Rightarrow>
          (Some e,
           if partial then (case writeFile destPath fs of None \<Rightarrow> fs | Some fs' \<Rightarrow> fs')
           else fs)
      | None \<Rightarrow>
          (case writeFile destPath fs of
             None \<Rightarrow> (Some ''EISDIR'', fs)
           | Some fs' \<Rightarrow> (None, fs')))"

text \<open>
  \<open>_extractTarball\<close>: the extraction directory is created, then the entries are
  handled; the promise resolves on \<open>finish\<close>, rejects on an error of the archive
  stream, and is otherwise never settled (\<open>None\<close>).
\<close>

definition extractTarball ::
  "'a effects \<Rightarrow> string \<Rightarrow> string \<Rightarrow> file_system \<Rightarrow> string option option \<times> file_system" where
  "extractTarball eff cwd extractPath fs =
     (case mkdirRecursive (mkdirExtract eff) (segments cwd extractPath) fs of
        Inl e \<Rightarrow> (Some (Some e), fs)
      | Inr fs1 \<Rightarrow>
          (case extractEntries cwd extractPath (tarEntries eff) fs1 of
             NeverSettles fs2 \<Rightarrow> (None, fs2)
           | Finished fs2 \<Rightarrow> (Some (extractError eff), fs2)))"

text \<open>
  The \<open>try\<close> block: its outcome (the analysis, the error thrown, or \<open>None\<close> when it
  never settles), the value of \<open>extractedPath\<close> then, and the file system then.
\<close>

definition tryBlock ::
  "'a effects \<Rightarrow> string \<Rightarrow> string \<Rightarrow> file_system \<Rightarrow>
     (string + 'a) option \<times> string option \<times> file_system" where
  "tryBlock eff cwd tempPath fs =
     (case mkdirRecursive (mkdirTemp eff) (segments cwd tempPath) fs of
        Inl e \<Rightarrow> (Some (Inl e), None, fs)
      | Inr fs1 \<Rightarrow>
          (let tarballPath = path_join [tempPath, ''package.tgz'']
           in case downloadTarball (download eff) (segments cwd tarballPath) fs1 of
                (Some e, fs2) \<Rightarrow> (Some (Inl e), None, fs2)
              | (None, fs2) \<Rightarrow>
                  (let extractedPath = path_join [tempPath, ''extracted'']
                   in case extractTarball eff cwd extractedPath fs2 of
                        (None, fs3) \<Rightarrow> (None, Some extractedPath, fs3)
                      | (Some (Some e), fs3) \<Rightarrow> (Some (Inl e), Some extractedPath, fs3)
                      | (Some None, fs3) \<Rightarrow>
                          (Some (Inr (analyzedContents eff)), Some extractedPath, fs3))))"

text \<open>
  The \<open>finally\<close> block: \<open>rm\<close> of the extraction directory when \<open>extractedPath\<close> is set,
  then \<open>rm\<close> of the scratch directory; an error of either is caught and ignored, and an
  error of the first skips the second. A failed \<open>rm\<close> is taken to remove nothing.
\<close>

definition finallyBlock ::
  "'a effects \<Rightarrow> string \<Rightarrow> string option \<Rightarrow> string \<Rightarrow> file_system \<Rightarrow> file_system" where
  "finallyBlock eff cwd extractedPath tempPath fs =
     (case extractedPath of
        None \<Rightarrow>
          (case rmTemp eff of Some e \<Rightarrow> fs | None \<Rightarrow> rm_rf (segments cwd tempPath) fs)
      | Some p \<Rightarrow>
          (case rmExtracted eff of
             Some e \<Rightarrow> fs
           | None \<Rightarrow>
               (case rmTemp eff of
                  Some e \<Rightarrow> rm_rf (segments cwd p) fs
                | None \<Rightarrow> rm_rf (segments cwd tempPath) (rm_rf (segments cwd p) fs))))"

definition scratchPath :: "string \<Rightarrow> string \<Rightarrow> string" where
  "scratchPath tempDir pkgName =
     path_join [tempDir, replaceFirst CHR ''/'' CHR ''_'' pkgName]"

text \<open>
  \<open>analyzeTarball\<close>, called in working directory \<open>cwd\<close>: either the call completes, with
  the analysis returned or the error thrown and the file system at that moment, or its
  promise is never settled; then the \<open>finally\<close> block has not run, and the file system
  is as the \<open>try\<close> block left it.
\<close>

datatype 'a call = Completes "string + 'a" file_system | NeverCompletes file_system

definition analyzeTarball ::
  "string \<Rightarrow> string \<Rightarrow> 'a effects \<Rightarrow> string option \<Rightarrow> string \<Rightarrow> file_system \<Rightarrow> 'a call" where
  "analyzeTarball cwd tempDir eff tarballUrl pkgName fs =
     (case truthy tarballUrl of
        None \<Rightarrow> Completes (Inl ''Tarball URL is required'') fs
      | Some url \<Rightarrow>
          (let tempPath = scratchPath tempDir pkgName
           in case tryBlock eff cwd tempPath fs of
                (None, extractedPath, fs1) \<Rightarrow> NeverCompletes fs1
              | (Some outcome, extractedPath, fs1) \<Rightarrow>
                  Completes outcome (finallyBlock eff cwd extractedPath tempPath fs1)))"

text \<open>Concrete inputs: the extraction root of package \<open>pkg\<close>; an archive with the
  directory \<open>package/\<close> and a file in it, and one with the file alone, as \<open>npm pack\<close>
  writes it; an environment in which every step succeeds, and one in which removing
  the extraction directory fails.\<close>

definition extractRoot :: string where
  "extractRoot = ''/tmp/npm-security-score/pkg/extracted''"

definition withDirectory :: "header list" where
  "withDirectory =
     [\<lparr>entry_name = ''package/'', entry_type = DirectoryEntry\<rparr>,
      \<lparr>entry_name = ''package/index.js'', entry_type = FileEntry\<rparr>]"

definition fileAlone :: "header list" where
  "fileAlone = [\<lparr>entry_name = ''package/index.js'', entry_type = FileEntry\<rparr>]"

definition smoothRun :: "header list \<Rightarrow> unit effects" where
  "smoothRun hs = \<lparr>mkdirTemp = None, download = None, mkdirExtract = None,
     tarEntries = hs, extractError = None, analyzedContents = (),
     rmExtracted = None, rmTemp = None\<rparr>"

definition busyRun :: "header list \<Rightarrow> unit effects" where
  "busyRun hs = (smoothRun hs)\<lparr>rmExtracted := Some ''EBUSY: resource busy or locked''\<rparr>"

text \<open>The outcome of a call and the paths that exist when it completes.\<close>

definition outcomeOf :: "'a call \<Rightarrow> (string + 'a) option" where
  "outcomeOf c = (case c of Completes outcome fs \<Rightarrow> Some outcome | NeverCompletes fs \<Rightarrow> None)"

definition leftBehind :: "'a call \<Rightarrow> file_system" where
  "leftBehind c = (case c of Completes outcome fs \<Rightarrow> fs | NeverCompletes fs \<Rightarrow> fs)"

section \<open>Character comparisons on bits\<close>

text \<open>
  The comparison of code units and the case mappings are computed on the bits of the
  characters; the equations below are what evaluation uses.
\<close>

lemma horner_sum_bits_inj:
  "length as = length bs \<Longrightarrow>
     horner_sum of_bool (2::int) as = horner_sum of_bool 2 bs \<longleftrightarrow> as = bs"
proof (induction as bs rule: list_induct2)
  case Nil
  then show ?case by simp
next
  case (Cons a as b bs)
  show ?case
  proof
    assume eq: "horner_sum of_bool (2::int) (a # as) = horner_sum of_bool 2 (b # bs)"
    then have "a = b" by (cases a; cases b; auto; presburger)
    with eq Cons show "a # as = b # bs" by simp
  qed simp
qed

lemma horner_sum_bits_le:
  "length as = length bs \<Longrightarrow>
     horner_sum of_bool (2::int) as \<le> horner_sum of_bool 2 bs \<longleftrightarrow> bits_le as bs"
proof (induction as bs rule: list_induct2)
  case Nil
  then show ?case by simp
next
  case (Cons a as b bs)
  show ?case
  proof (cases "as = bs")
    case True
    then show ?thesis by (cases a; cases b; simp)
  next
    case False
    with Cons have ne: "horner_sum of_bool (2::int) as \<noteq> horner_sum of_bool 2 bs"
      by (simp add: horner_sum_bits_inj)
    from False Cons have "bits_le (a # as) (b # bs) \<longleftrightarrow>
        horner_sum of_bool (2::int) as \<le> horner_sum of_bool 2 bs" by simp
    also have "\<dots> \<longleftrightarrow> horner_sum of_bool (2::int) (a # as) \<le> horner_sum of_bool 2 (b # bs)"
      using ne by (cases a; cases b; auto)
    finally show ?thesis by simp
  qed
qed

lemma code_le_bits [code]:
  "code_le (Char a0 a1 a2 a3 a4 a5 a6 a7) (Char b0 b1 b2 b3 b4 b5 b6 b7) =
     bits_le [a0, a1, a2, a3, a4, a5, a6, a7] [b0, b1, b2, b3, b4, b5, b6, b7]"
  unfolding code_le_def code_def of_char_Char
  by (rule horner_sum_bits_le) simp

lemma upcase_bits [code]:
  "upcase (Char b0 b1 b2 b3 b4 b5 b6 b7) =
     (if is_lower (Char b0 b1 b2 b3 b4 b5 b6 b7) then Char b0 b1 b2 b3 b4 False b6 b7
      else Char b0 b1 b2 b3 b4 b5 b6 b7)"
  by (cases b0; cases b1; cases b2; cases b3; cases b4; cases b5; cases b6; cases b7;
      simp add: upcase_def is_lower_def between_def code_le_bits code_def char_of_def)

lemma downcase_bits [code]:
  "downcase (Char b0 b1 b2 b3 b4 b5 b6 b7) =
     (if is_upper (Char b0 b1 b2 b3 b4 b5 b6 b7) then Char b0 b1 b2 b3 b4 True b6 b7
      else Char b0 b1 b2 b3 b4 b5 b6 b7)"
  by (cases b0; cases b1; cases b2; cases b3; cases b4; cases b5; cases b6; cases b7;
      simp add: downcase_def is_upper_def between_def code_le_bits code_def char_of_def)

section \<open>Properties of the number model\<close>

text \<open>Powers of two and the binary exponent.\<close>

lemma pow2_powi: "pow2 n = 2 powi n"
proof (cases "0 \<le> n")
  case True
  then show ?thesis by (simp add: pow2_def power_int_def)
next
  case False
  then have "pow2 n = 1 / 2 ^ nat (- n)" by (simp add: pow2_def)
  also have "\<dots> = inverse 2 ^ nat (- n)" by (simp add: power_one_over inverse_eq_divide)
  finally show ?thesis using False by (simp add: power_int_def)
qed

lemma pow2_pos: "0 < pow2 n"
  by (simp add: pow2_powi)

lemma pow2_mono: "m \<le> n \<Longrightarrow> pow2 m \<le> pow2 n"
  by (simp add: pow2_powi power_int_increasing)

lemma pow2_strict_mono: "m < n \<Longrightarrow> pow2 m < pow2 n"
  by (simp add: pow2_powi power_int_strict_increasing)

lemma pow2_less_imp: "pow2 m < pow2 n \<Longrightarrow> m < n"
  using pow2_mono[of n m] by (cases "m < n") auto

lemma pow2_nat: "0 \<le> n \<Longrightarrow> pow2 n = 2 ^ nat n"
  by (simp add: pow2_def)

lemma pow2_diff: "pow2 (m - n) = pow2 m / pow2 n"
  by (simp add: pow2_powi power_int_diff)

lemma floor_log2_bounds:
  assumes "0 < x"
  shows "pow2 (floor_log2 x) \<le> x \<and> x < pow2 (floor_log2 x + 1)"
proof -
  obtain p q where pq: "quotient_of x = (p, q)" by (cases "quotient_of x") auto
  then have q: "0 < q" and x: "x = of_int p / of_int q"
    by (auto simp: quotient_of_denom_pos quotient_of_div)
  from assms q x have p: "0 < p" by (simp add: zero_less_divide_iff)
  define d where "d = bitlen p - bitlen q"
  from bitlen_bounds[OF p] have p1: "(2::rat) ^ nat (bitlen p - 1) \<le> of_int p"
    and p2: "of_int p < (2::rat) ^ nat (bitlen p)"
    by (metis of_int_le_iff of_int_numeral of_int_power, metis of_int_less_iff of_int_numeral of_int_power)
  from bitlen_bounds[OF q] have q1: "(2::rat) ^ nat (bitlen q - 1) \<le> of_int q"
    and q2: "of_int q < (2::rat) ^ nat (bitlen q)"
    by (metis of_int_le_iff of_int_numeral of_int_power, metis of_int_less_iff of_int_numeral of_int_power)
  have bp: "1 \<le> bitlen p" and bq: "1 \<le> bitlen q"
    using p q by (auto simp: bitlen_alt_def)
  have P1: "pow2 (bitlen p - 1) \<le> of_int p" and P2: "of_int p < pow2 (bitlen p)"
    and Q1: "pow2 (bitlen q - 1) \<le> of_int q" and Q2: "of_int q < pow2 (bitlen q)"
    using p1 p2 q1 q2 bp bq by (simp_all add: pow2_nat)
  have up: "x < pow2 (d + 1)"
  proof -
    have "x < pow2 (bitlen p) / of_int q"
      unfolding x using P2 q by (simp add: divide_strict_right_mono)
    also have "\<dots> \<le> pow2 (bitlen p) / pow2 (bitlen q - 1)"
      using Q1 pow2_pos[of "bitlen q - 1"] pow2_pos[of "bitlen p"]
      by (simp add: frac_le)
    also have "\<dots> = pow2 (d + 1)"
      unfolding d_def by (simp add: pow2_diff[symmetric] algebra_simps)
    finally show ?thesis .
  qed
  have lo: "pow2 (d - 1) \<le> x"
  proof -
    have "pow2 (d - 1) = pow2 (bitlen p - 1) / pow2 (bitlen q)"
      unfolding d_def by (simp add: pow2_diff[symmetric] algebra_simps)
    also have "\<dots> \<le> of_int p / of_int q"
      using P1 Q2 q pow2_pos[of "bitlen p - 1"] by (intro frac_le) auto
    finally show ?thesis by (simp add: x)
  qed
  show ?thesis
    using up lo by (auto simp: floor_log2_def pq d_def[symmetric] Let_def not_le)
qed

lemma floor_log2_unique:
  assumes "pow2 e \<le> x" and "x < pow2 (e + 1)"
  shows "floor_log2 x = e"
proof -
  have "0 < x" using assms(1) pow2_pos[of e] by linarith
  from floor_log2_bounds[OF this] have
    a: "pow2 (floor_log2 x) \<le> x" and b: "x < pow2 (floor_log2 x + 1)" by auto
  from a assms(2) have "pow2 (floor_log2 x) < pow2 (e + 1)" by linarith
  then have "floor_log2 x < e + 1" by (rule pow2_less_imp)
  moreover from assms(1) b have "pow2 e < pow2 (floor_log2 x + 1)" by linarith
  then have "e < floor_log2 x + 1" by (rule pow2_less_imp)
  ultimately show ?thesis by linarith
qed

lemma round_even_of_int: "round_even (of_int m) = m"
  by (simp add: round_even_def)

lemma rd_of_int:
  assumes "\<bar>k\<bar> \<le> 9007199254740992"
  shows "rd (of_int k) = Finite (of_int k)"
proof (cases "k = 0")
  case True
  then show ?thesis by (simp add: rd_def)
next
  case False
  define x :: rat where "x = of_int k"
  define e where "e = floor_log2 \<bar>x\<bar>"
  have a1: "1 \<le> \<bar>x\<bar>" using False by (simp add: x_def) (metis of_int_abs of_int_1_le_iff zero_less_abs_iff int_one_le_iff_zero_less)?
  then have "0 < \<bar>x\<bar>" by linarith
  from floor_log2_bounds[OF this]
  have lo: "pow2 e \<le> \<bar>x\<bar>" and hi: "\<bar>x\<bar> < pow2 (e + 1)" by (auto simp: e_def)
  have "pow2 0 < pow2 (e + 1)" using a1 hi by (simp add: pow2_def)
  then have e0: "0 \<le> e" using pow2_less_imp[of 0 "e + 1"] by simp
  have a53: "\<bar>x\<bar> \<le> pow2 53"
    using assms by (simp add: x_def pow2_def) (metis of_int_abs of_int_le_iff of_int_numeral)?
  with lo have "pow2 e < pow2 54" using pow2_strict_mono[of 53 54] by linarith
  then have e53: "e \<le> 53" using pow2_less_imp[of e 54] by simp
  have "\<exists>m. x / pow2 (e - 52) = of_int m"
  proof (cases "e \<le> 52")
    case True
    then have "pow2 (e - 52) = 1 / of_int (2 ^ nat (52 - e))"
      by (cases "e = 52") (auto simp: pow2_def)
    then have "x / pow2 (e - 52) = of_int (k * 2 ^ nat (52 - e))"
      by (simp add: x_def)
    then show ?thesis by blast
  next
    case False
    with e53 have e: "e = 53" by simp
    with lo a53 have "\<bar>x\<bar> = pow2 53" by simp
    then have "\<bar>k\<bar> = 9007199254740992"
      by (simp add: x_def pow2_def) (metis of_int_abs of_int_eq_iff of_int_numeral)?
    then have "k = 9007199254740992 \<or> k = - 9007199254740992" by linarith
    then have "x / pow2 (e - 52) = of_int (k div 2)"
      by (auto simp: x_def e pow2_def)
    then show ?thesis by blast
  qed
  then obtain m where m: "x / pow2 (e - 52) = of_int m" by blast
  then have y: "of_int m * pow2 (e - 52) = x"
    using pow2_pos[of "e - 52"] by (simp add: field_simps)
  have mx: "max e (- 1022) = e" using e0 by simp
  have "x \<noteq> 0" using False by (simp add: x_def)
  then show ?thesis
    unfolding x_def[symmetric] rd_def
    using e53 by (simp add: e_def[symmetric] mx Let_def m round_even_of_int y)
qed

text \<open>Integers up to \<open>2^53\<close> in absolute value are doubles, so sums and differences
  that stay in that range are exact; comparisons of finite numbers are those of their
  values.\<close>

lemma Finite_plus: "Finite a + Finite b = rd (a + b)"
  by (simp add: plus_number_def)

lemma Finite_minus: "Finite a - Finite b = rd (a - b)"
  by (simp add: minus_number_def)

lemma Finite_times: "Finite a * Finite b = rd (a * b)"
  by (simp add: times_number_def)

lemma Finite_less: "Finite a < Finite b \<longleftrightarrow> a < b"
  by (simp add: less_number_def)

lemma Finite_le: "Finite a \<le> Finite b \<longleftrightarrow> a \<le> b"
  by (auto simp: less_eq_number_def num_eq_def)

lemma num_eq_Finite: "num_eq (Finite a) (Finite b) \<longleftrightarrow> a = b"
  by (simp add: num_eq_def)

lemma round_even_ge: "of_int N \<le> q \<Longrightarrow> N \<le> round_even q"
proof -
  assume "of_int N \<le> q"
  then have "N \<le> \<lfloor>q\<rfloor>" by (simp add: le_floor_iff)
  then show ?thesis by (auto simp: round_even_def Let_def)
qed

lemma round_even_le: "q \<le> of_int N \<Longrightarrow> round_even q \<le> N"
proof -
  assume a: "q \<le> of_int N"
  then have f: "\<lfloor>q\<rfloor> \<le> N" by (simp add: floor_le_iff)
  show ?thesis
  proof (cases "\<lfloor>q\<rfloor> = N")
    case True
    with a have "q = of_int N" using of_int_floor_le[of q] by linarith
    then show ?thesis by (simp add: round_even_of_int)
  next
    case False
    with f have "\<lfloor>q\<rfloor> + 1 \<le> N" by linarith
    then show ?thesis by (auto simp: round_even_def Let_def)
  qed
qed

text \<open>Rounding to a double keeps a value between two doubles of its binade.\<close>

lemma rd_between:
  assumes e: "pow2 e \<le> of_int L * pow2 (e - 52)" "of_int H * pow2 (e - 52) < pow2 (e + 1)"
    and r: "- 1022 \<le> e" "e < 1023"
    and x: "of_int L * pow2 (e - 52) \<le> x" "x \<le> of_int H * pow2 (e - 52)"
  shows "\<exists>y. rd x = Finite y \<and> of_int L * pow2 (e - 52) \<le> y \<and> y \<le> of_int H * pow2 (e - 52)"
proof -
  let ?u = "pow2 (e - 52)"
  have u: "0 < ?u" by (rule pow2_pos)
  have pos: "0 < x" using e(1) x(1) pow2_pos[of e] by linarith
  have fl: "floor_log2 \<bar>x\<bar> = e"
    using e x pos by (intro floor_log2_unique) auto
  have q1: "of_int L \<le> x / ?u" using x(1) u by (simp add: pos_le_divide_eq)
  have q2: "x / ?u \<le> of_int H" using x(2) u by (simp add: pos_divide_le_eq)
  have L: "L \<le> round_even (x / ?u)" using q1 by (rule round_even_ge)
  have H: "round_even (x / ?u) \<le> H" using q2 by (rule round_even_le)
  have rdx: "rd x = Finite (of_int (round_even (x / ?u)) * ?u)"
    using pos r fl by (simp add: rd_def Let_def max_def)
  have "of_int L * ?u \<le> of_int (round_even (x / ?u)) * ?u"
    using L u by (simp add: mult_right_mono)
  moreover have "of_int (round_even (x / ?u)) * ?u \<le> of_int H * ?u"
    using H u by (simp add: mult_right_mono)
  ultimately show ?thesis using rdx by blast
qed

section \<open>Properties of the score calculator\<close>

text \<open>When no rule rejects with \<open>null\<close> or \<open>undefined\<close> the loop completes, with one
  entry per rule, in order.\<close>

lemma evaluateRules_completes:
  "\<forall>r \<in> set rs. evaluate r p \<noteq> Inl Nullish \<Longrightarrow>
     \<exists>sc' results'. evaluateRules rs p (sc, results) = Inr (sc', results') \<and>
        map ruleName results' = map ruleName results @ map rule_name rs"
proof (induction rs arbitrary: sc results)
  case Nil
  then show ?case by simp
next
  case (Cons r rs)
  show ?case
  proof (cases "evaluate r p")
    case (Inr result)
    from Cons.IH[of "sc - numOr (deduction result) 0 + numOr (bonus result) 0"
        "results @ [result_entry r result]"] Cons.prems
    show ?thesis by (auto simp: Inr result_entry_def)
  next
    case (Inl t)
    with Cons.prems obtain message where t: "t = Thrown message" by (cases t) auto
    from Cons.IH[of sc "results @ [error_entry r message]"] Cons.prems
    show ?thesis by (auto simp: Inl t error_entry_def)
  qed
qed

text \<open>The result when the loop completes.\<close>

lemma calculateScore_completes:
  assumes "evaluateRules (getActiveRules (ruleRegistry calc)) pd (baseScore (config calc), [])
      = Inr (sc, results)"
  shows "calculateScore gsb now calc (Some pd) =
     Inr \<lparr>score = round2 (clampScore (config calc) sc),
          band = gsb (clampScore (config calc) sc),
          ruleResults = results,
          packageName = name pd,
          packageVersion = version pd,
          timestamp = now\<rparr>"
  using assms by (simp add: calculateScore_def Let_def)

text \<open>A clamped score from 89.995 up to, but not including, 90 is rounded to 90 and lies
  in the Review band.\<close>

lemma round2_near_90:
  assumes "89995 / 1000 \<le> a" and "a < 90"
  shows "round2 (Finite a) = Finite 90"
proof -
  have pu: "pow2 (13 - 52) = 1 / 549755813888" by (simp add: pow2_def)
  have lo: "of_int 4947527447085056 * pow2 (13 - 52) = 17999 / 2"
    and hi: "of_int 4947802324992000 * pow2 (13 - 52) = 9000"
    unfolding pu by simp_all
  have e1: "pow2 13 \<le> of_int 4947527447085056 * pow2 (13 - 52)"
    unfolding lo by (simp add: pow2_def)
  have e2: "of_int 4947802324992000 * pow2 (13 - 52) < pow2 (13 + 1)"
    unfolding hi by (simp add: pow2_def)
  have x1: "of_int 4947527447085056 * pow2 (13 - 52) \<le> a * 100"
    unfolding lo using assms(1) by simp
  have x2: "a * 100 \<le> of_int 4947802324992000 * pow2 (13 - 52)"
    unfolding hi using assms(2) by simp
  from rd_between[OF e1 e2 _ _ x1 x2]
  obtain y where y: "rd (a * 100) = Finite y" "17999 / 2 \<le> y" "y \<le> 9000"
    unfolding lo hi by auto
  have fl: "\<lfloor>y + 1 / 2\<rfloor> = 9000" using y(2,3) by (simp add: floor_eq_iff)
  have "rd (of_int 90) = Finite (of_int 90)" by (rule rd_of_int) simp
  then have r90: "rd 90 = Finite 90" by simp
  show ?thesis
    by (simp add: round2_def Finite_times y(1) Math_round_def fl divide_number_def r90)
qed

lemma getScoreBand_near_90:
  assumes "70 \<le> a" and "a < 90"
  shows "getScoreBand (Finite a) = Review"
  using assms by (simp add: getScoreBand_def Finite_le)

lemma getScoreBand_90: "getScoreBand (Finite 90) = Safe"
  by (simp add: getScoreBand_def Finite_le)

text \<open>
  C2. The returned score can lie outside the bounds. The score is clamped first and
  rounded to two decimals afterwards: with \<open>minScore = 0.0625\<close> and one rule deducting
  100 the clamped score is 0.0625 and the returned score is 0.06, below \<open>minScore\<close>.
  With the default bounds, a rule deducting \<open>Infinity\<close> followed by a rule adding
  \<open>Infinity\<close> makes the running score NaN, which \<open>Math.min\<close>, \<open>Math.max\<close> and
  \<open>Math.round\<close> pass on: the returned score is NaN, which is neither at least 0 nor at
  most 100.
\<close>

theorem calculateScore_outside_bounds:
  "score_of (calculateScore getScoreBand clock low_min_calc (Some ex_pkg)) = Some (num (6 / 100)) \<and>
   minScore (config low_min_calc) = Finite (1 / 16) \<and>
   num (6 / 100) < minScore (config low_min_calc) \<and>
   \<not> minScore (config low_min_calc) \<le> num (6 / 100) \<and>
   score_of (calculateScore getScoreBand clock infinite_calc (Some ex_pkg)) = Some NaN \<and>
   \<not> minScore (config infinite_calc) \<le> NaN \<and>
   \<not> NaN \<le> maxScore (config infinite_calc)"
  by code_simp

text \<open>
  C3. \<open>calculateScore\<close> also throws with the snapshot present: when a rule's \<open>evaluate\<close>
  rejects with \<open>null\<close>, reading \<open>error.message\<close> in the \<open>catch\<close> block raises a
  TypeError that leaves \<open>calculateScore\<close>; no entry is recorded for the rule, the
  rule after it is not evaluated and no score is produced. A rule that throws an
  \<open>Error\<close> is handled as specified: its entry has risk level \<open>error\<close>, deduction 0,
  bonus 0 and the message, and the next rule's deduction of 5 gives the score 95.
\<close>

theorem calculateScore_null_rejection:
  "calculateScore getScoreBand clock null_calc (Some ex_pkg) = Inl CatchBlockTypeError \<and>
   calculateScore getScoreBand clock null_calc None = Inl PackageDataRequired \<and>
   calculateScore getScoreBand clock mixed_calc (Some ex_pkg) =
     Inr \<lparr>score = Finite 95, band = Safe,
          ruleResults =
            [\<lparr>ruleName = ''error-rule'', res_deduction = Finite 0, res_bonus = Finite 0,
              res_details = ErrorDetails (Some ''Rule error''), res_riskLevel = ''error''\<rparr>,
             \<lparr>ruleName = ''rule2'', res_deduction = Finite 5, res_bonus = Finite 0,
              res_details = EmptyDetails, res_riskLevel = ''none''\<rparr>],
          packageName = Some ''pkg'', packageVersion = Some ''1.0.0'',
          timestamp = clock\<rparr>"
  by code_simp

text \<open>
  C10. When the rule loop completes with running score \<open>sc\<close>, the band is that of
  \<open>Math.max(minScore, Math.min(maxScore, sc))\<close>, the clamped score before rounding, and
  the returned score is that value rounded to two decimals. Consequently, whenever the
  clamped score is at least 89.995 and below 90, the returned score is 90, whose own
  band is Safe, while the returned band is Review.
\<close>

theorem calculateScore_band_before_rounding:
  assumes "evaluateRules (getActiveRules (ruleRegistry calc)) pd (baseScore (config calc), [])
      = Inr (sc, results)"
  shows "(\<exists>res. calculateScore gsb now calc (Some pd) = Inr res \<and>
            band res = gsb (Math_max (minScore (config calc)) (Math_min (maxScore (config calc)) sc)) \<and>
            score res =
              Math_round (Math_max (minScore (config calc)) (Math_min (maxScore (config calc)) sc)
                * Finite 100) / Finite 100) \<and>
         (\<forall>a. Math_max (minScore (config calc)) (Math_min (maxScore (config calc)) sc) = Finite a \<and>
               89995 / 1000 \<le> a \<and> a < 90 \<longrightarrow>
            (\<exists>res. calculateScore getScoreBand now calc (Some pd) = Inr res \<and>
               band res = Review \<and> score res = Finite 90 \<and> getScoreBand (score res) = Safe))"
proof (intro conjI allI impI)
  show "\<exists>res. calculateScore gsb now calc (Some pd) = Inr res \<and>
      band res = gsb (Math_max (minScore (config calc)) (Math_min (maxScore (config calc)) sc)) \<and>
      score res =
        Math_round (Math_max (minScore (config calc)) (Math_min (maxScore (config calc)) sc)
          * Finite 100) / Finite 100"
    by (simp add: calculateScore_completes[OF assms] clampScore_def round2_def)
next
  fix a
  assume a: "Math_max (minScore (config calc)) (Math_min (maxScore (config calc)) sc) = Finite a \<and>
      89995 / 1000 \<le> a \<and> a < 90"
  then have c: "clampScore (config calc) sc = Finite a" by (simp add: clampScore_def)
  from a have r: "round2 (Finite a) = Finite 90" by (intro round2_near_90) auto
  from a have b: "getScoreBand (Finite a) = Review" by (intro getScoreBand_near_90) auto
  show "\<exists>res. calculateScore getScoreBand now calc (Some pd) = Inr res \<and>
      band res = Review \<and> score res = Finite 90 \<and> getScoreBand (score res) = Safe"
    by (simp add: calculateScore_completes[OF assms] c r b getScoreBand_90)
qed

text \<open>
  Two instances. With the default configuration and one rule deducting 10.001 the
  running score is just below 90 and clamping leaves it as it is. With \<open>maxScore =
  89.999\<close> and no rule the running score is 100, whose band is Safe, and it is the
  clamped score 89.999 that decides the band. In both the score is 90 and the band
  Review.
\<close>

theorem calculateScore_band_before_rounding_witness:
  "rawScore capped_calc ex_pkg = Some (Finite 100) \<and>
   getScoreBand (Finite 100) = Safe \<and>
   band_of (calculateScore getScoreBand clock capped_calc (Some ex_pkg)) = Some Review \<and>
   score_of (calculateScore getScoreBand clock capped_calc (Some ex_pkg)) = Some (Finite 90) \<and>
   rawScore near_band_calc ex_pkg = Some (Finite 100 - num (10001 / 1000)) \<and>
   band_of (calculateScore getScoreBand clock near_band_calc (Some ex_pkg)) = Some Review \<and>
   score_of (calculateScore getScoreBand clock near_band_calc (Some ex_pkg)) = Some (Finite 90)"
proof -
  have l1: "evaluateRules (getActiveRules (ruleRegistry capped_calc)) ex_pkg
      (baseScore (config capped_calc), []) = Inr (Finite 100, [])"
    by (simp add: capped_calc_def with_config_def default_config_def getActiveRules_def)
  have c1: "Math_max (minScore (config capped_calc))
      (Math_min (maxScore (config capped_calc)) (Finite 100)) =
      Finite (3166558303622791 / 35184372088832)"
    by code_simp
  have l2: "evaluateRules (getActiveRules (ruleRegistry near_band_calc)) ex_pkg
      (baseScore (config near_band_calc), []) =
      Inr (Finite 100 - num (10001 / 1000),
           [result_entry (deduct_rule ''rule1'' (num (10001 / 1000)))
              \<lparr>deduction = Some (num (10001 / 1000)), bonus = None, details = None,
               riskLevel = None\<rparr>])"
    by code_simp
  have c2: "Math_max (minScore (config near_band_calc))
      (Math_min (maxScore (config near_band_calc)) (Finite 100 - num (10001 / 1000))) =
      Finite (3166558303622791 / 35184372088832)"
    by code_simp
  have g: "getScoreBand (Finite 100) = Safe" by (simp add: getScoreBand_def Finite_le)
  have r1: "\<exists>res. calculateScore getScoreBand clock capped_calc (Some ex_pkg) = Inr res \<and>
      band res = Review \<and> score res = Finite 90 \<and> getScoreBand (score res) = Safe"
    by (rule calculateScore_band_before_rounding[OF l1, THEN conjunct2, rule_format,
          where a = "3166558303622791 / 35184372088832"])
       (simp add: c1)
  have r2: "\<exists>res. calculateScore getScoreBand clock near_band_calc (Some ex_pkg) = Inr res \<and>
      band res = Review \<and> score res = Finite 90 \<and> getScoreBand (score res) = Safe"
    by (rule calculateScore_band_before_rounding[OF l2, THEN conjunct2, rule_format,
          where a = "3166558303622791 / 35184372088832"])
       (simp add: c2)
  from r1 r2 g show ?thesis
    by (auto simp: band_of_def score_of_def rawScore_def l1 l2)
qed

section \<open>Properties of the lifecycle-script risk rule\<close>

text \<open>
  For an enabled rule and at least one lifecycle script, the deduction follows the
  ladder on \<open>hasHighRisk\<close> and \<open>totalRisk\<close>, and the risk level is \<open>high\<close> only when a
  script matched a high-risk pattern.
\<close>

lemma lifecycle_deduction_tiers:
  assumes "enabled rule" and "extractLifecycleScripts pa pd \<noteq> []"
  shows "\<exists>r. reportOf (lifecycle_evaluate pa rule pd) = Some r \<and>
     deduction (lifecycle_evaluate pa rule pd) =
       Some (if hasHighRisk r \<or> totalRisk r \<ge> 3 then weight rule
             else if totalRisk r \<ge> 2 then Math_floor (weight rule * Finite (3 / 4))
             else if totalRisk r \<ge> 1 then Math_floor (weight rule * Finite (1 / 2))
             else 0) \<and>
     riskLevel (lifecycle_evaluate pa rule pd) =
       Some (if hasHighRisk r then ''high'' else if totalRisk r \<ge> 2 then ''medium''
             else if totalRisk r \<ge> 1 then ''low'' else ''none'')"
proof -
  obtain fs t h where st:
    "analyzeScripts pa (extractLifecycleScripts pa pd) ([], 0, False) = (fs, t, h)"
    by (cases "analyzeScripts pa (extractLifecycleScripts pa pd) ([], 0, False)") auto
  have ev: "lifecycle_evaluate pa rule pd =
      \<lparr>deduction = Some (lifecycleDeduction (weight rule) h t), bonus = None,
       details = Some (LifecycleReport
         \<lparr>lc_findings = fs, totalScripts = length (extractLifecycleScripts pa pd),
          riskyScripts = length fs, totalRisk = t, hasHighRisk = h\<rparr>),
       riskLevel = Some (lifecycleRiskLevel h t)\<rparr>"
    using assms by (simp add: lifecycle_evaluate_def Let_def st)
  show ?thesis
    unfolding ev by (simp add: reportOf_def lifecycleDeduction_def lifecycleRiskLevel_def)
qed

text \<open>
  C5. The deduction follows the ladder of the specification, but the risk level does
  not mirror it:
  for the single script \<open>curl http://x; wget http://y\<close> no high-risk pattern matches,
  four suspicious patterns do, so \<open>totalRisk = 4\<close> and the full weight 30 is deducted,
  while the returned risk level is \<open>medium\<close> (the script's own level is \<open>high\<close>).
\<close>

theorem lifecycle_full_deduction_medium_level:
  "lifecycle_evaluate plainAnalyzer (LifecycleScriptRiskRule (Finite 30)) twoDownloads =
     \<lparr>deduction = Some (Finite 30), bonus = None,
      details = Some (LifecycleReport
        \<lparr>lc_findings =
           [\<lparr>f_hook = ''postinstall'', f_script = ''curl http://x; wget http://y'',
             f_risk = 4, f_riskLevel = ''high'',
             f_issues = [SuspiciousCommand 0, SuspiciousCommand 1, SuspiciousCommand 15,
               SuspiciousCommand 16],
             f_isHighRisk = False\<rparr>],
         totalScripts = 1, riskyScripts = 1, totalRisk = 4, hasHighRisk = False\<rparr>),
      riskLevel = Some ''medium''\<rparr>"
  by code_simp

text \<open>
  C6. For the lifecycle scripts \<open>{postinstall: "curl http://x", preinstall: "wget
  http://y"}\<close> and weight 30 each script matches two entries of the suspicious-command
  table, the tool followed by an argument (\<open>/\bcurl\s+[^\s]+/\<close>, \<open>/\bwget\s+[^\s]+/\<close>)
  and the tool followed by \<open>http\<close> (\<open>/\bcurl\s+.*http/\<close>, \<open>/\bwget\s+.*http/\<close>); each
  match adds 1, so each script has risk 2, \<open>totalRisk\<close> is 4 and the deduction is the
  full weight 30, not \<open>floor(30 * 0.75) = 22\<close>, the deduction at \<open>totalRisk = 2\<close>.
\<close>

theorem lifecycle_two_scripts_counted_twice:
  "lifecycle_evaluate plainAnalyzer (LifecycleScriptRiskRule (Finite 30)) twoScripts =
     \<lparr>deduction = Some (Finite 30), bonus = None,
      details = Some (LifecycleReport
        \<lparr>lc_findings =
           [\<lparr>f_hook = ''postinstall'', f_script = ''curl http://x'', f_risk = 2,
             f_riskLevel = ''medium'',
             f_issues = [SuspiciousCommand 0, SuspiciousCommand 16], f_isHighRisk = False\<rparr>,
            \<lparr>f_hook = ''preinstall'', f_script = ''wget http://y'', f_risk = 2,
             f_riskLevel = ''medium'',
             f_issues = [SuspiciousCommand 1, SuspiciousCommand 15], f_isHighRisk = False\<rparr>],
         totalScripts = 2, riskyScripts = 2, totalRisk = 4, hasHighRisk = False\<rparr>),
      riskLevel = Some ''medium''\<rparr> \<and>
   lifecycleDeduction (Finite 30) False 2 = Finite 22 \<and>
   Math_floor (Finite 30 * Finite (3 / 4)) = Finite 22"
  by code_simp

section \<open>Properties of the update-behavior rule\<close>

text \<open>The digits of a version number denote a natural number; up to \<open>2^53\<close> it is
  parsed exactly, and differences of such numbers are exact.\<close>

lemma digitValue_nonneg: "0 \<le> digitValue c"
  by (simp add: digitValue_def digitTable_def)

lemma foldl_digits_nonneg:
  "0 \<le> n \<Longrightarrow> 0 \<le> foldl (\<lambda>n c. 10 * n + digitValue c) n ds"
  by (induction ds arbitrary: n) (simp_all add: digitValue_nonneg)

lemma digitsValue_nonneg: "0 \<le> digitsValue ds"
  by (simp add: digitsValue_def foldl_digits_nonneg)

lemma parseInt_exact:
  assumes "digitsValue ds \<le> 9007199254740992"
  shows "parseInt ds = Finite (of_int (digitsValue ds))"
  unfolding parseInt_def using assms digitsValue_nonneg[of ds] by (intro rd_of_int) simp

lemma Finite_int_diff:
  assumes "0 \<le> m" "m \<le> 9007199254740992" "0 \<le> n" "n \<le> 9007199254740992"
  shows "Finite (of_int n) - Finite (of_int m) = Finite (of_int (n - m))"
proof -
  have "rd (of_int (n - m)) = Finite (of_int (n - m))"
    using assms by (intro rd_of_int) simp
  then show ?thesis by (simp add: Finite_minus)
qed

lemma versionGroups_examples:
  "versionGroups (cleanVersion ''1.0.0'') = Some (''1'', ''0'', ''0'', None, None)"
  "versionGroups (cleanVersion ''3.0.0'') = Some (''3'', ''0'', ''0'', None, None)"
  "versionGroups (cleanVersion ''1.2.0'') = Some (''1'', ''2'', ''0'', None, None)"
  "versionGroups (cleanVersion ''v1.7.9'') = Some (''1'', ''7'', ''9'', None, None)"
  by code_simp+

lemma digitsValue_examples:
  "digitsValue ''0'' = 0" "digitsValue ''1'' = 1" "digitsValue ''2'' = 2"
  "digitsValue ''3'' = 3" "digitsValue ''7'' = 7"
  by (simp_all add: digitsValue_def digitValue_def digitTable_def)

text \<open>
  C4. The list the window is taken from is sorted in the default string order, not by
  (major, minor, patch): for the history with versions 1.2.0 and 1.10.0 it is
  \<open>[1.10.0, 1.2.0]\<close>, although \<open>_compareVersionStrings\<close> (used for the jump scan) puts
  1.2.0 first. With 1.10.0 as the current version the window is \<open>[1.10.0]\<close> alone, so
  the pair 1.2.0, 1.10.0 is never compared and the tripled size goes unnoticed: the
  only finding is the minor jump.
\<close>

theorem versions_sorted_as_strings:
  "sortedKeys history_2_10 = [''1.10.0'', ''1.2.0''] \<and>
   compareVersionStrings defaultCompare ''1.2.0'' ''1.10.0'' < 0 \<and>
   sort_by (compareVersionStrings defaultCompare) (map fst history_2_10) =
     [''1.2.0'', ''1.10.0''] \<and>
   versionsToAnalyze (servedRule (Some history_2_10)) (snapshotAt ''1.10.0'') history_2_10 =
     [''1.10.0''] \<and>
   update_evaluate plainAnalyzer defaultCompare (servedRule (Some history_2_10))
     (Some (snapshotAt ''1.10.0'')) =
   \<lparr>deduction = Some (Finite 5), bonus = None,
    details = Some (Analysis
      \<lparr>findings = [VersionJumpFinding ''1.2.0'' ''1.10.0'' (Some ''minor-jump'')],
       versionsAnalyzed = 1, totalVersions = 2, hasSuspiciousChanges = True\<rparr> 2 1),
    riskLevel = Some ''low''\<rparr>"
  by code_simp

text \<open>
  C7 (as amended). With the default major-jump threshold 2 and two parseable versions
  whose major and minor numbers are at most \<open>2^53\<close>: equal majors with a minor
  difference of absolute value at most 5, and equal major and minor whatever the
  patches, are not unusual; a major difference of at least 2 is a \<open>major-jump\<close> whose
  magnitude is that difference.
\<close>

theorem analyzeVersionJump_thresholds:
  assumes "versionJumpThreshold rule = Finite 2"
    and "versionGroups (cleanVersion a) = Some (a1, a2, a3, apre, abld)"
    and "versionGroups (cleanVersion b) = Some (b1, b2, b3, bpre, bbld)"
    and "digitsValue a1 \<le> 9007199254740992" and "digitsValue a2 \<le> 9007199254740992"
    and "digitsValue b1 \<le> 9007199254740992" and "digitsValue b2 \<le> 9007199254740992"
  shows "(digitsValue a1 = digitsValue b1 \<and> \<bar>digitsValue b2 - digitsValue a2\<bar> \<le> 5 \<longrightarrow>
            \<not> isUnusual (analyzeVersionJump rule a b)) \<and>
         (digitsValue a1 = digitsValue b1 \<and> digitsValue a2 = digitsValue b2 \<longrightarrow>
            \<not> isUnusual (analyzeVersionJump rule a b)) \<and>
         (digitsValue b1 - digitsValue a1 \<ge> 2 \<longrightarrow>
            analyzeVersionJump rule a b =
              \<lparr>isUnusual = True, jump_type = Some ''major-jump'',
               magnitude = Some (Finite (of_int (digitsValue b1 - digitsValue a1)))\<rparr>)"
proof -
  have pa: "parseVersion a = Some \<lparr>major = Finite (of_int (digitsValue a1)),
      minor = Finite (of_int (digitsValue a2)), patch = parseInt a3,
      prerelease = apre, build = abld\<rparr>"
    using assms(2,4,5) by (simp add: parseVersion_def parseInt_exact)
  have pb: "parseVersion b = Some \<lparr>major = Finite (of_int (digitsValue b1)),
      minor = Finite (of_int (digitsValue b2)), patch = parseInt b3,
      prerelease = bpre, build = bbld\<rparr>"
    using assms(3,6,7) by (simp add: parseVersion_def parseInt_exact)
  define D1 where "D1 = digitsValue b1 - digitsValue a1"
  define D2 where "D2 = digitsValue b2 - digitsValue a2"
  have dmaj: "Finite (of_int (digitsValue b1)) - Finite (of_int (digitsValue a1)) =
      Finite (of_int D1)"
    unfolding D1_def using assms(4,6) digitsValue_nonneg by (intro Finite_int_diff) simp_all
  have dmin: "Finite (of_int (digitsValue b2)) - Finite (of_int (digitsValue a2)) =
      Finite (of_int D2)"
    unfolding D2_def using assms(5,7) digitsValue_nonneg by (intro Finite_int_diff) simp_all
  have J: "analyzeVersionJump rule a b =
      (if 2 \<le> D1
       then \<lparr>isUnusual = True, jump_type = Some ''major-jump'',
             magnitude = Some (Finite (of_int D1))\<rparr>
       else if digitsValue b1 = digitsValue a1 \<and> 5 < D2
       then \<lparr>isUnusual = True, jump_type = Some ''minor-jump'',
             magnitude = Some (Finite (of_int D2))\<rparr>
       else \<lparr>isUnusual = False, jump_type = None, magnitude = None\<rparr>)"
    by (simp add: analyzeVersionJump_def pa pb assms(1) dmaj dmin Finite_le Finite_less
        num_eq_Finite)
  have c1: "digitsValue a1 = digitsValue b1 \<and> \<bar>digitsValue b2 - digitsValue a2\<bar> \<le> 5 \<longrightarrow>
      \<not> isUnusual (analyzeVersionJump rule a b)"
    unfolding J using D1_def D2_def by simp
  have c2: "digitsValue a1 = digitsValue b1 \<and> digitsValue a2 = digitsValue b2 \<longrightarrow>
      \<not> isUnusual (analyzeVersionJump rule a b)"
    unfolding J using D1_def D2_def by simp
  have c3: "digitsValue b1 - digitsValue a1 \<ge> 2 \<longrightarrow>
      analyzeVersionJump rule a b =
        \<lparr>isUnusual = True, jump_type = Some ''major-jump'',
         magnitude = Some (Finite (of_int (digitsValue b1 - digitsValue a1)))\<rparr>"
    unfolding J D1_def by simp
  from c1 c2 c3 show ?thesis by blast
qed

theorem analyzeVersionJump_thresholds_witness:
  "analyzeVersionJump (servedRule None) ''1.0.0'' ''3.0.0'' =
     \<lparr>isUnusual = True, jump_type = Some ''major-jump'', magnitude = Some (Finite 2)\<rparr> \<and>
   \<not> isUnusual (analyzeVersionJump (servedRule None) ''1.2.0'' ''v1.7.9'') \<and>
   \<not> isUnusual (analyzeVersionJump (servedRule None) ''v1.7.9'' ''1.2.0'')"
proof -
  have t: "versionJumpThreshold (servedRule None) = Finite 2"
    by (simp add: servedRule_def UpdateBehaviorRule_def defaultUpdateConfig_def numOr_def)
  from analyzeVersionJump_thresholds[OF t versionGroups_examples(1) versionGroups_examples(2)]
       analyzeVersionJump_thresholds[OF t versionGroups_examples(3) versionGroups_examples(4)]
       analyzeVersionJump_thresholds[OF t versionGroups_examples(4) versionGroups_examples(3)]
  show ?thesis by (simp add: digitsValue_examples)
qed

text \<open>
  Version numbers are parsed into doubles, so the claim fails above \<open>2^53\<close>. The majors
  18014398509481984 and 18014398509481986 differ by 2 and parse to the same number:
  no jump is reported. The minors 9007199254740993 and 9007199254740998 of two versions
  with major 1 differ by 5 and parse to numbers that differ by 6: a \<open>minor-jump\<close> is
  reported.
\<close>

theorem analyzeVersionJump_large_numbers_counterexample:
  "versionGroups (cleanVersion ''18014398509481984.0.0'') =
     Some (''18014398509481984'', ''0'', ''0'', None, None) \<and>
   versionGroups (cleanVersion ''18014398509481986.0.0'') =
     Some (''18014398509481986'', ''0'', ''0'', None, None) \<and>
   digitsValue ''18014398509481986'' - digitsValue ''18014398509481984'' = 2 \<and>
   analyzeVersionJump (servedRule None) ''18014398509481984.0.0'' ''18014398509481986.0.0'' =
     \<lparr>isUnusual = False, jump_type = None, magnitude = None\<rparr> \<and>
   versionGroups (cleanVersion ''1.9007199254740993.0'') =
     Some (''1'', ''9007199254740993'', ''0'', None, None) \<and>
   versionGroups (cleanVersion ''1.9007199254740998.0'') =
     Some (''1'', ''9007199254740998'', ''0'', None, None) \<and>
   digitsValue ''9007199254740998'' - digitsValue ''9007199254740993'' = 5 \<and>
   analyzeVersionJump (servedRule None) ''1.9007199254740993.0'' ''1.9007199254740998.0'' =
     \<lparr>isUnusual = True, jump_type = Some ''minor-jump'', magnitude = Some (Finite 6)\<rparr>"
  by code_simp

text \<open>
  C9. When the snapshot is absent or has no name, when fetching the history throws, and
  when the history is \<open>null\<close> or has fewer than two versions, \<open>evaluate\<close> returns
  deduction 0 and risk level \<open>none\<close> with a reason; it returns a value in every case,
  since every throw happens inside the \<open>try\<close>.
\<close>

theorem update_evaluate_fails_soft:
  assumes "packageData = None \<or> (\<exists>pd. packageData = Some pd \<and>
             (truthy (name pd) = None \<or>
              (\<exists>n. truthy (name pd) = Some n \<and>
                 (case getAllVersions rule n of
                    Inl message \<Rightarrow> True
                  | Inr None \<Rightarrow> True
                  | Inr (Some h) \<Rightarrow> length h < 2))))"
  shows "\<exists>d. update_evaluate pa lc rule packageData =
            \<lparr>deduction = Some 0, bonus = None, details = Some d, riskLevel = Some ''none''\<rparr> \<and>
          hasReason d"
proof (cases "enabled rule")
  case False
  then show ?thesis
    by (simp add: update_evaluate_def softResult_def hasReason_def)
next
  case True
  from assms consider
      (absent) "packageData = None"
    | (unnamed) pd where "packageData = Some pd" "truthy (name pd) = None"
    | (fetched) pd n where "packageData = Some pd" "truthy (name pd) = Some n"
        "case getAllVersions rule n of
           Inl message \<Rightarrow> True
         | Inr None \<Rightarrow> True
         | Inr (Some h) \<Rightarrow> length h < 2"
    by blast
  then show ?thesis
  proof cases
    case absent
    with True show ?thesis
      by (simp add: update_evaluate_def softResult_def hasReason_def)
  next
    case unnamed
    with True show ?thesis
      by (simp add: update_evaluate_def softResult_def hasReason_def)
  next
    case fetched
    show ?thesis
    proof (cases "getAllVersions rule n")
      case (Inl message)
      with True fetched show ?thesis
        by (simp add: update_evaluate_def softResult_def hasReason_def)
    next
      case (Inr ho)
      show ?thesis
      proof (cases ho)
        case None
        with True fetched Inr show ?thesis
          by (simp add: update_evaluate_def softResult_def hasReason_def)
      next
        case (Some h)
        with fetched(3) Inr have "length h < 2" by simp
        with True fetched Inr Some show ?thesis
          by (simp add: update_evaluate_def softResult_def hasReason_def)
      qed
    qed
  qed
qed

theorem update_evaluate_fails_soft_witness:
  "(\<exists>d. update_evaluate plainAnalyzer defaultCompare offlineRule (Some unnamed) =
       \<lparr>deduction = Some 0, bonus = None, details = Some d, riskLevel = Some ''none''\<rparr> \<and>
     hasReason d) \<and>
   (\<exists>d. update_evaluate plainAnalyzer defaultCompare offlineRule (Some (snapshotAt ''1.0.0'')) =
       \<lparr>deduction = Some 0, bonus = None, details = Some d, riskLevel = Some ''none''\<rparr> \<and>
     hasReason d) \<and>
   (\<exists>d. update_evaluate plainAnalyzer defaultCompare (servedRule (Some [(''1.0.0'', sized (Finite 1000))]))
         (Some (snapshotAt ''1.0.0'')) =
       \<lparr>deduction = Some 0, bonus = None, details = Some d, riskLevel = Some ''none''\<rparr> \<and>
     hasReason d)"
proof -
  have n0: "truthy (name unnamed) = None"
    by (simp add: unnamed_def truthy_def)
  have n1: "truthy (name (snapshotAt ''1.0.0'')) = Some ''test-package''"
    by (simp add: snapshotAt_def truthy_def)
  have f1: "getAllVersions offlineRule ''test-package'' = Inl ''Network error''"
    by (simp add: offlineRule_def UpdateBehaviorRule_def)
  have f2: "getAllVersions (servedRule (Some [(''1.0.0'', sized (Finite 1000))])) ''test-package'' =
      Inr (Some [(''1.0.0'', sized (Finite 1000))])"
    by (simp add: servedRule_def UpdateBehaviorRule_def)
  have a: "\<exists>d. update_evaluate plainAnalyzer defaultCompare offlineRule (Some unnamed) =
       \<lparr>deduction = Some 0, bonus = None, details = Some d, riskLevel = Some ''none''\<rparr> \<and>
     hasReason d"
    by (rule update_evaluate_fails_soft) (simp add: n0)
  have b: "\<exists>d. update_evaluate plainAnalyzer defaultCompare offlineRule
         (Some (snapshotAt ''1.0.0'')) =
       \<lparr>deduction = Some 0, bonus = None, details = Some d, riskLevel = Some ''none''\<rparr> \<and>
     hasReason d"
    by (rule update_evaluate_fails_soft) (simp add: n1 f1)
  have c: "\<exists>d. update_evaluate plainAnalyzer defaultCompare
         (servedRule (Some [(''1.0.0'', sized (Finite 1000))])) (Some (snapshotAt ''1.0.0'')) =
       \<lparr>deduction = Some 0, bonus = None, details = Some d, riskLevel = Some ''none''\<rparr> \<and>
     hasReason d"
    by (rule update_evaluate_fails_soft) (simp add: n1 f2)
  from a b c show ?thesis by blast
qed

section \<open>Properties of archive ingestion\<close>

text \<open>
  C1. The check is \<open>startsWith\<close> on the joined path, a comparison of strings: for the
  extraction root \<open>/tmp/npm-security-score/pkg/extracted\<close> the entry
  \<open>../extracted-evil/x.js\<close> resolves to a path in the sibling directory
  \<open>extracted-evil\<close> and passes the check, so a write stream is opened on it;
  \<open>getFileContent\<close> likewise reads
  \<open>../../extracted-evil/secret.txt\<close>. Neither path is inside the root. An entry that
  leaves through a directory whose name does not extend the root's is skipped.
\<close>

theorem prefix_check_admits_sibling:
  "entryTarget extractRoot \<lparr>entry_name = ''../extracted-evil/x.js'', entry_type = FileEntry\<rparr> =
     Some ''/tmp/npm-security-score/pkg/extracted-evil/x.js'' \<and>
   \<not> isInside extractRoot ''/tmp/npm-security-score/pkg/extracted-evil/x.js'' \<and>
   getFileContent (\<lambda>p. Inr p) extractRoot ''../../extracted-evil/secret.txt'' =
     Inr ''/tmp/npm-security-score/pkg/extracted-evil/secret.txt'' \<and>
   \<not> isInside extractRoot ''/tmp/npm-security-score/pkg/extracted-evil/secret.txt'' \<and>
   entryTarget extractRoot \<lparr>entry_name = ''../other/x.js'', entry_type = FileEntry\<rparr> = None"
  by code_simp

text \<open>When the sibling directory exists, extraction writes the file there.\<close>

lemma extractEntries_writes_sibling:
  "extractEntries ''/home/user'' extractRoot
     [\<lparr>entry_name = ''../extracted-evil/x.js'', entry_type = FileEntry\<rparr>]
     [([''tmp'', ''npm-security-score'', ''pkg'', ''extracted''], Directory),
      ([''tmp'', ''npm-security-score'', ''pkg'', ''extracted-evil''], Directory)] =
   Finished
     [([''tmp'', ''npm-security-score'', ''pkg'', ''extracted''], Directory),
      ([''tmp'', ''npm-security-score'', ''pkg'', ''extracted-evil''], Directory),
      ([''tmp'', ''npm-security-score'', ''pkg'', ''extracted-evil'', ''x.js''], RegularFile)]"
  by code_simp

text \<open>Removal leaves nothing at or below the removed path and adds nothing.\<close>

lemma rm_rf_removes: "\<forall>(q, n) \<in> set (rm_rf p fs). \<not> below p q"
  by (auto simp: rm_rf_def)

lemma rm_rf_subset: "set (rm_rf p fs) \<subseteq> set fs"
  by (auto simp: rm_rf_def)

lemma finallyBlock_clean:
  assumes "rmExtracted eff = None" and "rmTemp eff = None"
  shows "(\<forall>(q, n) \<in> set (finallyBlock eff cwd extractedPath tempPath fs).
            \<not> below (segments cwd tempPath) q) \<and>
         (\<forall>p. extractedPath = Some p \<longrightarrow>
            (\<forall>(q, n) \<in> set (finallyBlock eff cwd extractedPath tempPath fs).
               \<not> below (segments cwd p) q)) \<and>
         set (finallyBlock eff cwd extractedPath tempPath fs) \<subseteq> set fs"
  using assms
  by (cases extractedPath) (auto simp: finallyBlock_def rm_rf_def)

text \<open>
  C8 (as amended). With a missing URL the call throws before it creates anything and
  the file system is unchanged. Otherwise, if the \<open>try\<close> block never settles, neither
  does the call, and what the \<open>try\<close> block created stays. If the \<open>try\<close> block settles
  (normal return, or an error while creating the scratch directory, downloading or
  extracting) and the two \<open>rm\<close> calls of the \<open>finally\<close> block succeed, the call
  completes with the outcome of the \<open>try\<close> block, nothing is left at or below the
  scratch directory, and nothing at or below the extraction directory whenever
  \<open>extractedPath\<close> had been set.
\<close>

theorem analyzeTarball_cleanup:
  assumes "rmExtracted eff = None" and "rmTemp eff = None"
  shows "(truthy tarballUrl = None \<longrightarrow>
            analyzeTarball cwd tempDir eff tarballUrl pkgName fs =
              Completes (Inl ''Tarball URL is required'') fs) \<and>
         (truthy tarballUrl \<noteq> None \<longrightarrow>
            (case tryBlock eff cwd (scratchPath tempDir pkgName) fs of
               (None, extractedPath, fs1) \<Rightarrow>
                 analyzeTarball cwd tempDir eff tarballUrl pkgName fs = NeverCompletes fs1
             | (Some outcome, extractedPath, fs1) \<Rightarrow>
                 (\<exists>fs'. analyzeTarball cwd tempDir eff tarballUrl pkgName fs =
                          Completes outcome fs' \<and>
                    set fs' \<subseteq> set fs1 \<and>
                    (\<forall>(q, n) \<in> set fs'.
                       \<not> below (segments cwd (scratchPath tempDir pkgName)) q) \<and>
                    (\<forall>p. extractedPath = Some p \<longrightarrow>
                       (\<forall>(q, n) \<in> set fs'. \<not> below (segments cwd p) q)))))"
proof (cases "truthy tarballUrl")
  case None
  then show ?thesis by (simp add: analyzeTarball_def)
next
  case (Some url)
  obtain outcome extractedPath fs1 where tb:
    "tryBlock eff cwd (scratchPath tempDir pkgName) fs = (outcome, extractedPath, fs1)"
    by (cases "tryBlock eff cwd (scratchPath tempDir pkgName) fs") auto
  show ?thesis
  proof (cases outcome)
    case None
    then show ?thesis by (simp add: analyzeTarball_def Some tb)
  next
    case (Some out)
    have res: "analyzeTarball cwd tempDir eff tarballUrl pkgName fs =
        Completes out (finallyBlock eff cwd extractedPath (scratchPath tempDir pkgName) fs1)"
      by (simp add: analyzeTarball_def \<open>truthy tarballUrl = Some url\<close> tb Some)
    from finallyBlock_clean[OF assms, of cwd extractedPath "scratchPath tempDir pkgName" fs1]
    show ?thesis
      unfolding tb Some using \<open>truthy tarballUrl = Some url\<close> by (simp add: res)
  qed
qed

lemma smoothRun_try:
  "tryBlock (smoothRun withDirectory) ''/home/user''
     (scratchPath ''/tmp/npm-security-score'' ''pkg'') [([''tmp''], Directory)] =
     (Some (Inr ()), Some extractRoot,
      [([''tmp''], Directory),
       ([''tmp'', ''npm-security-score''], Directory),
       ([''tmp'', ''npm-security-score'', ''pkg''], Directory),
       ([''tmp'', ''npm-security-score'', ''pkg'', ''package.tgz''], RegularFile),
       ([''tmp'', ''npm-security-score'', ''pkg'', ''extracted''], Directory),
       ([''tmp'', ''npm-security-score'', ''pkg'', ''extracted'', ''package''], Directory),
       ([''tmp'', ''npm-security-score'', ''pkg'', ''extracted'', ''package'', ''index.js''],
        RegularFile)])"
  by code_simp

lemma scratchPath_pkg:
  "segments ''/home/user'' (scratchPath ''/tmp/npm-security-score'' ''pkg'') =
     [''tmp'', ''npm-security-score'', ''pkg'']"
  "segments ''/home/user'' extractRoot = [''tmp'', ''npm-security-score'', ''pkg'', ''extracted'']"
  by code_simp+

text \<open>An archive with the directory \<open>package/\<close> and a file in it, every step
  succeeding: the analysis is returned and only what existed before is left.\<close>

theorem analyzeTarball_cleanup_witness:
  "outcomeOf (analyzeTarball ''/home/user'' ''/tmp/npm-security-score'' (smoothRun withDirectory)
      (Some ''https://registry/pkg.tgz'') ''pkg'' [([''tmp''], Directory)]) = Some (Inr ()) \<and>
   ([''tmp'', ''npm-security-score'', ''pkg''], Directory)
     \<notin> set (leftBehind (analyzeTarball ''/home/user'' ''/tmp/npm-security-score''
        (smoothRun withDirectory) (Some ''https://registry/pkg.tgz'') ''pkg''
        [([''tmp''], Directory)])) \<and>
   ([''tmp'', ''npm-security-score'', ''pkg'', ''package.tgz''], RegularFile)
     \<notin> set (leftBehind (analyzeTarball ''/home/user'' ''/tmp/npm-security-score''
        (smoothRun withDirectory) (Some ''https://registry/pkg.tgz'') ''pkg''
        [([''tmp''], Directory)])) \<and>
   ([''tmp'', ''npm-security-score'', ''pkg'', ''extracted''], Directory)
     \<notin> set (leftBehind (analyzeTarball ''/home/user'' ''/tmp/npm-security-score''
        (smoothRun withDirectory) (Some ''https://registry/pkg.tgz'') ''pkg''
        [([''tmp''], Directory)])) \<and>
   ([''tmp'', ''npm-security-score'', ''pkg'', ''extracted'', ''package'', ''index.js''],
    RegularFile)
     \<notin> set (leftBehind (analyzeTarball ''/home/user'' ''/tmp/npm-security-score''
        (smoothRun withDirectory) (Some ''https://registry/pkg.tgz'') ''pkg''
        [([''tmp''], Directory)]))"
proof -
  have r: "rmExtracted (smoothRun withDirectory) = None" "rmTemp (smoothRun withDirectory) = None"
    by (simp_all add: smoothRun_def)
  have u: "truthy (Some ''https://registry/pkg.tgz'') \<noteq> None"
    by (simp add: truthy_def)
  from analyzeTarball_cleanup[OF r, of "Some ''https://registry/pkg.tgz''" "''/home/user''"
      "''/tmp/npm-security-score''" "''pkg''" "[([''tmp''], Directory)]"] u
  obtain fs' where fs': "analyzeTarball ''/home/user'' ''/tmp/npm-security-score''
        (smoothRun withDirectory) (Some ''https://registry/pkg.tgz'') ''pkg''
        [([''tmp''], Directory)] = Completes (Inr ()) fs'"
      "\<forall>(q, n) \<in> set fs'. \<not> below [''tmp'', ''npm-security-score'', ''pkg''] q"
    by (auto simp: smoothRun_try scratchPath_pkg)
  from fs'(2) have "\<And>q n. below [''tmp'', ''npm-security-score'', ''pkg''] q \<Longrightarrow> (q, n) \<notin> set fs'"
    by auto
  then show ?thesis
    by (simp add: fs'(1) outcomeOf_def leftBehind_def below_def)
qed

text \<open>
  When removing the extraction directory fails, the error is caught, the scratch
  directory is not removed either, and the call returns the analysis with both
  directories and their contents in place.
\<close>

theorem analyzeTarball_cleanup_counterexample:
  "analyzeTarball ''/home/user'' ''/tmp/npm-security-score'' (busyRun withDirectory)
      (Some ''https://registry/pkg.tgz'') ''pkg'' [([''tmp''], Directory)] =
     Completes (Inr ())
      [([''tmp''], Directory),
       ([''tmp'', ''npm-security-score''], Directory),
       ([''tmp'', ''npm-security-score'', ''pkg''], Directory),
       ([''tmp'', ''npm-security-score'', ''pkg'', ''package.tgz''], RegularFile),
       ([''tmp'', ''npm-security-score'', ''pkg'', ''extracted''], Directory),
       ([''tmp'', ''npm-security-score'', ''pkg'', ''extracted'', ''package''], Directory),
       ([''tmp'', ''npm-security-score'', ''pkg'', ''extracted'', ''package'', ''index.js''],
        RegularFile)] \<and>
   segments ''/home/user'' (scratchPath ''/tmp/npm-security-score'' ''pkg'') =
     [''tmp'', ''npm-security-score'', ''pkg''] \<and>
   segments ''/home/user'' extractRoot = [''tmp'', ''npm-security-score'', ''pkg'', ''extracted'']"
  by code_simp

text \<open>
  An archive that holds the file \<open>package/index.js\<close> and no entry for the directory
  \<open>package/\<close>: the write stream cannot be opened, the extraction never settles and
  neither does the call, although no step of the environment fails; the scratch
  directory, the downloaded archive and the extraction directory stay. A scratch path
  that ends in a separator is removed with its contents like any other.
\<close>

lemma analyzeTarball_file_alone:
  "analyzeTarball ''/home/user'' ''/tmp/npm-security-score'' (smoothRun fileAlone)
      (Some ''https://registry/pkg.tgz'') ''pkg'' [([''tmp''], Directory)] =
     NeverCompletes
      [([''tmp''], Directory),
       ([''tmp'', ''npm-security-score''], Directory),
       ([''tmp'', ''npm-security-score'', ''pkg''], Directory),
       ([''tmp'', ''npm-security-score'', ''pkg'', ''package.tgz''], RegularFile),
       ([''tmp'', ''npm-security-score'', ''pkg'', ''extracted''], Directory)]"
  by code_simp

lemma analyzeTarball_trailing_separator:
  "scratchPath ''/tmp/npm-security-score'' ''@scope/name/'' =
     ''/tmp/npm-security-score/@scope_name/'' \<and>
   analyzeTarball ''/home/user'' ''/tmp/npm-security-score'' (smoothRun withDirectory)
      (Some ''https://registry/pkg.tgz'') ''@scope/name/'' [([''tmp''], Directory)] =
     Completes (Inr ()) [([''tmp''], Directory), ([''tmp'', ''npm-security-score''], Directory)]"
  by code_simp


end
